theory Spec2Isabelle
  imports Main
begin

section \<open>The figure layer of gmt-python (\<^verbatim>\<open>gmt/figure.py\<close>)\<close>

text \<open>
  A shallow embedding of \<^verbatim>\<open>gmt/figure.py\<close>. Every function of the module is a HOL
  function from a process state to a result and a new process state; a Python exception
  is the left injection of the result. What the module only calls (the native GMT
  library, the decorators and \<^verbatim>\<open>build_arg_string\<close> of the sibling modules, child
  processes, the random source of \<^verbatim>\<open>tempfile\<close>, IPython, base64) is a field of the
  environment record, so every theorem holds for any behaviour of these.
\<close>

subsection \<open>Python values, errors, the process state\<close>

type_synonym bytes = string

datatype pyval = PStr string | PBool bool | PInt int

type_synonym kwargs = "string \<rightharpoonup> pyval"

datatype error =
    AssertionError string
  | KeyError string
  | TypeError string
  | GMTCLibError string
  | FileNotFoundError string
  | FileExistsError string
  | CalledProcessError int

datatype node = File bytes | Dir

text \<open>The \<^verbatim>\<open>stdout\<close>/\<^verbatim>\<open>stderr\<close> arguments of \<^verbatim>\<open>subprocess\<close>: inherited when not given.\<close>

datatype redirect = INHERIT | DEVNULL | PIPE

text \<open>
  What the process does to the operating system besides file access: starting a child
  with the two output streams, blocking until a child has exited (with the exit status
  collected), asking the browser for a new tab.
\<close>

datatype os_event =
    Spawn "string list" redirect redirect
  | Wait "string list" int
  | BrowserNewTab string

text \<open>The attributes of a \<^verbatim>\<open>Figure\<close> object: \<^verbatim>\<open>_name\<close> and the path of \<^verbatim>\<open>_preview_dir\<close>.\<close>

record Figure =
  name :: string
  preview_dir :: string

text \<open>
  The process state: \<^verbatim>\<open>self\<close> holds the attributes of the object whose method runs,
  \<^verbatim>\<open>calls\<close> is the log of \<^verbatim>\<open>LibGMT.call_module\<close> invocations (module, argument string),
  \<^verbatim>\<open>events\<close> the log of operating-system events, \<^verbatim>\<open>fs\<close> the file system,
  \<^verbatim>\<open>gmt\<close> the internal state of the native library and \<^verbatim>\<open>drawn\<close> the number of
  candidate names \<^verbatim>\<open>tempfile\<close> has drawn from its random source so far.
\<close>

record 'g state =
  self :: Figure
  calls :: "(string \<times> string) list"
  events :: "os_event list"
  fs :: "string \<rightharpoonup> node"
  gmt :: 'g
  drawn :: nat

text \<open>
  The environment. \<^verbatim>\<open>gmt_module\<close> is the native library behind \<^verbatim>\<open>call_module\<close>: it
  reports success or failure and may change its own state and the file system.
  \<^verbatim>\<open>use_alias\<close>, \<^verbatim>\<open>kwargs_to_strings\<close> and \<^verbatim>\<open>build_arg_string\<close> are the helpers of
  \<^verbatim>\<open>gmt.decorators\<close> and \<^verbatim>\<open>gmt.utils\<close>, which \<^verbatim>\<open>figure.py\<close> imports.
  \<^verbatim>\<open>run_child\<close> gives the exit status of a command, or nothing when the executable cannot
  be started. \<^verbatim>\<open>candidates\<close> is the sequence of random names of \<^verbatim>\<open>tempfile\<close> and
  \<^verbatim>\<open>tmp_max\<close> its number of attempts (\<^verbatim>\<open>os.TMP_MAX\<close>: 238328 on Linux, 10000 where the
  system gives none). \<^verbatim>\<open>debug\<close> is Python's \<^verbatim>\<open>__debug__\<close>: true unless the interpreter
  runs with \<^verbatim>\<open>-O\<close>, which removes every \<^verbatim>\<open>assert\<close> statement.
\<close>

record 'g env =
  debug :: bool
  platform :: string
  gmt_module :: "string \<Rightarrow> string \<Rightarrow> 'g \<Rightarrow> (string \<rightharpoonup> node) \<Rightarrow> bool \<times> 'g \<times> (string \<rightharpoonup> node)"
  use_alias :: "(string \<times> string) list \<Rightarrow> kwargs \<Rightarrow> kwargs"
  kwargs_to_strings :: "kwargs \<Rightarrow> kwargs"
  build_arg_string :: "kwargs \<Rightarrow> string"
  run_child :: "string list \<Rightarrow> int option"
  candidates :: "nat \<Rightarrow> string"
  tmp_max :: nat
  tempdir :: string
  ipython :: bool
  encodebytes :: "bytes \<Rightarrow> bytes"

type_synonym ('g, 'a) py = "'g state \<Rightarrow> (error + 'a) \<times> 'g state"

subsection \<open>The pieces of the standard library the module uses\<close>

text \<open>\<^verbatim>\<open>str.rfind\<close> for a single character: the last index, or \<open>-1\<close>.\<close>

definition rfind :: "char \<Rightarrow> string \<Rightarrow> int" where
  "rfind c p =
     (if c \<in> set p
      then int (length p) - 1 - int (length (takeWhile (\<lambda>x. x \<noteq> c) (rev p)))
      else - 1)"

text \<open>
  \<^verbatim>\<open>posixpath.splitext\<close>: the extension starts at the last dot of the last path
  component, unless only dots come before it in that component.
\<close>

definition splitext :: "string \<Rightarrow> string \<times> string" where
  "splitext p =
     (let sepIndex = rfind CHR ''/'' p;
          dotIndex = rfind CHR ''.'' p
      in if dotIndex > sepIndex \<and>
            list_ex (\<lambda>c. c \<noteq> CHR ''.'')
              (take (nat dotIndex - nat (sepIndex + 1)) (drop (nat (sepIndex + 1)) p))
         then (take (nat dotIndex) p, drop (nat dotIndex) p)
         else (p, []))"

text \<open>\<^verbatim>\<open>posixpath.split(p)[-1]\<close>: what follows the last slash.\<close>

definition split_tail :: "string \<Rightarrow> string" where
  "split_tail p = drop (nat (rfind CHR ''/'' p + 1)) p"

text \<open>\<^verbatim>\<open>posixpath.join\<close> of two components.\<close>

definition path_join :: "string \<Rightarrow> string \<Rightarrow> string" where
  "path_join a b =
     (if b \<noteq> [] \<and> hd b = CHR ''/'' then b
      else if a = [] \<or> last a = CHR ''/'' then a @ b
      else a @ ''/'' @ b)"

text \<open>\<^verbatim>\<open>str.upper\<close> on ASCII letters.\<close>

definition upper_char :: "char \<Rightarrow> char" where
  "upper_char c =
     (if (97::nat) \<le> of_char c \<and> of_char c \<le> (122::nat)
      then char_of (of_char c - (32::nat)) else c)"

definition upper :: "string \<Rightarrow> string" where
  "upper s = map upper_char s"

text \<open>
  \<^verbatim>\<open>subprocess.run(args, stdout=.., stderr=.., check=..)\<close>: start the child, wait for it
  to exit, raise on a non-zero status only when \<^verbatim>\<open>check\<close> is set, return the completed
  process (here: its exit status).
\<close>

definition subprocess_run ::
  "'g env \<Rightarrow> string list \<Rightarrow> redirect \<Rightarrow> redirect \<Rightarrow> bool \<Rightarrow> ('g, int) py" where
  "subprocess_run e args out err check s =
     (case run_child e args of
        None \<Rightarrow> (Inl (FileNotFoundError (hd args)), s)
      | Some rc \<Rightarrow>
          (let s' = s\<lparr>events := events s @ [Spawn args out err, Wait args rc]\<rparr>
           in if check \<and> rc \<noteq> 0 then (Inl (CalledProcessError rc), s') else (Inr rc, s')))"

definition webbrowser_open_new_tab :: "string \<Rightarrow> ('g, unit) py" where
  "webbrowser_open_new_tab url s = (Inr (), s\<lparr>events := events s @ [BrowserNewTab url]\<rparr>)"

text \<open>
  The loop of \<^verbatim>\<open>tempfile\<close> (\<^verbatim>\<open>_mkstemp_inner\<close>, \<^verbatim>\<open>mkdtemp\<close>): draw the next candidate,
  build \<^verbatim>\<open>join(dir, prefix + candidate)\<close>, create it exclusively; when it exists already
  try again, at most \<^verbatim>\<open>TMP_MAX\<close> times (the second argument counts the attempts left).
\<close>

fun tmp_create :: "'g env \<Rightarrow> nat \<Rightarrow> string \<Rightarrow> string \<Rightarrow> node \<Rightarrow> ('g, string) py" where
  "tmp_create e 0 dir pre nd s = (Inl (FileExistsError ''No usable temporary name found''), s)"
| "tmp_create e (Suc k) dir pre nd s =
     (let file = path_join dir (pre @ candidates e (drawn s));
          s1 = s\<lparr>drawn := Suc (drawn s)\<rparr>
      in case fs s1 file of
           Some _ \<Rightarrow> tmp_create e k dir pre nd s1
         | None \<Rightarrow> (Inr file, s1\<lparr>fs := (fs s1)(file \<mapsto> nd)\<rparr>))"

text \<open>
  \<^verbatim>\<open>NamedTemporaryFile(prefix=.., dir=.., delete=True)\<close> gives the path of the new file;
  \<^verbatim>\<open>close()\<close> of such a file deletes it.
\<close>

definition NamedTemporaryFile :: "'g env \<Rightarrow> string \<Rightarrow> string \<Rightarrow> ('g, string) py" where
  "NamedTemporaryFile e pre dir s = tmp_create e (tmp_max e) dir pre (File []) s"

definition tmpfile_close :: "string \<Rightarrow> ('g, unit) py" where
  "tmpfile_close file s = (Inr (), s\<lparr>fs := (fs s)(file := None)\<rparr>)"

definition TemporaryDirectory :: "'g env \<Rightarrow> string \<Rightarrow> ('g, string) py" where
  "TemporaryDirectory e pre s = tmp_create e (tmp_max e) (tempdir e) pre Dir s"

text \<open>\<^verbatim>\<open>open(fname, 'rb').read()\<close>.\<close>

definition read_bytes :: "string \<Rightarrow> ('g, bytes) py" where
  "read_bytes fname s =
     (case fs s fname of
        Some (File b) \<Rightarrow> (Inr b, s)
      | _ \<Rightarrow> (Inl (FileNotFoundError fname), s))"

subsection \<open>Module-level functions\<close>

text \<open>\<^verbatim>\<open>lib.call_module(module, args)\<close> inside \<^verbatim>\<open>with LibGMT() as lib\<close>.\<close>

definition call_module :: "'g env \<Rightarrow> string \<Rightarrow> string \<Rightarrow> ('g, unit) py" where
  "call_module e module args s =
     (case gmt_module e module args (gmt s) (fs s) of
        (ok, g', fs') \<Rightarrow>
          (if ok then Inr () else Inl (GMTCLibError module),
           s\<lparr>calls := calls s @ [(module, args)], gmt := g', fs := fs'\<rparr>))"

text \<open>\<^verbatim>\<open>figure(name)\<close>: the format \<^verbatim>\<open>'-'\<close> tells the library to produce no file.\<close>

definition figure :: "'g env \<Rightarrow> string \<Rightarrow> ('g, unit) py" where
  "figure e nm s = (let fmt = ''-'' in call_module e ''figure'' (nm @ '' '' @ fmt) s)"

definition unique_name :: "'g env \<Rightarrow> ('g, string) py" where
  "unique_name e s =
     (case NamedTemporaryFile e ''gmt-python-'' ''.'' s of
        (Inl err, s1) \<Rightarrow> (Inl err, s1)
      | (Inr tmpfile_name, s1) \<Rightarrow>
          (let nm = split_tail tmpfile_name
           in case tmpfile_close tmpfile_name s1 of
                (Inl err, s2) \<Rightarrow> (Inl err, s2)
              | (Inr _, s2) \<Rightarrow> (Inr nm, s2)))"

definition launch_external_viewer :: "'g env \<Rightarrow> string \<Rightarrow> ('g, unit) py" where
  "launch_external_viewer e fname s =
     (if take 5 (platform e) = ''linux'' then
        (case subprocess_run e [''xdg-open'', fname] DEVNULL DEVNULL False s of
           (Inl err, s1) \<Rightarrow> (Inl err, s1)
         | (Inr _, s1) \<Rightarrow> (Inr (), s1))
      else if platform e = ''darwin'' then
        (case subprocess_run e [''open'', fname] DEVNULL DEVNULL False s of
           (Inl err, s1) \<Rightarrow> (Inl err, s1)
         | (Inr _, s1) \<Rightarrow> (Inr (), s1))
      else webbrowser_open_new_tab (''file://'' @ fname) s)"

subsection \<open>The class \<^verbatim>\<open>Figure\<close>\<close>

definition Figure_init :: "'g env \<Rightarrow> ('g, unit) py" where
  "Figure_init e s =
     (case unique_name e s of
        (Inl err, s1) \<Rightarrow> (Inl err, s1)
      | (Inr nm, s1) \<Rightarrow>
          (let s2 = s1\<lparr>self := (self s1)\<lparr>name := nm\<rparr>\<rparr>
           in case TemporaryDirectory e (name (self s2) @ ''-preview-'') s2 of
                (Inl err, s3) \<Rightarrow> (Inl err, s3)
              | (Inr d, s3) \<Rightarrow> (Inr (), s3\<lparr>self := (self s3)\<lparr>preview_dir := d\<rparr>\<rparr>)))"

definition preprocess :: "'g env \<Rightarrow> kwargs \<Rightarrow> ('g, kwargs) py" where
  "preprocess e kw s =
     (case figure e (name (self s)) s of
        (Inl err, s1) \<Rightarrow> (Inl err, s1)
      | (Inr _, s1) \<Rightarrow> (Inr kw, s1))"

text \<open>Lines 197 to 202 of \<^verbatim>\<open>psconvert\<close>: the two defaults.\<close>

definition psconvert_defaults :: "kwargs \<Rightarrow> kwargs" where
  "psconvert_defaults kw =
     (let kw1 = (if kw ''A'' = None then kw(''A'' \<mapsto> PStr []) else kw);
          kw2 = (if kw1 ''P'' = None then kw1(''P'' \<mapsto> PStr []) else kw1)
      in kw2)"

definition psconvert_body :: "'g env \<Rightarrow> kwargs \<Rightarrow> ('g, unit) py" where
  "psconvert_body e kw s =
     (case preprocess e kw s of
        (Inl err, s1) \<Rightarrow> (Inl err, s1)
      | (Inr kw0, s1) \<Rightarrow>
          call_module e ''psconvert'' (build_arg_string e (psconvert_defaults kw0)) s1)"

text \<open>The table of \<^verbatim>\<open>@use_alias\<close> on \<^verbatim>\<open>psconvert\<close> (flag, long name).\<close>

definition psconvert_aliases :: "(string \<times> string) list" where
  "psconvert_aliases =
     [(''F'', ''prefix''), (''T'', ''fmt''), (''A'', ''crop''), (''E'', ''dpi''),
      (''P'', ''portrait'')]"

text \<open>
  \<^verbatim>\<open>psconvert\<close> as callers see it: \<^verbatim>\<open>use_alias\<close> is the outer decorator and
  \<^verbatim>\<open>kwargs_to_strings\<close> the inner one, so the body receives the keyword arguments
  after both.
\<close>

definition decorated :: "'g env \<Rightarrow> kwargs \<Rightarrow> kwargs" where
  "decorated e kw = kwargs_to_strings e (use_alias e psconvert_aliases kw)"

definition psconvert :: "'g env \<Rightarrow> kwargs \<Rightarrow> ('g, unit) py" where
  "psconvert e kw s = psconvert_body e (decorated e kw) s"

definition fmts :: "string \<rightharpoonup> string" where
  "fmts = map_of [(''png'', ''g''), (''pdf'', ''f''), (''jpg'', ''j''), (''bmp'', ''b''),
                  (''eps'', ''e''), (''tif'', ''t'')]"

text \<open>\<^verbatim>\<open>ext\<close> of \<^verbatim>\<open>savefig\<close>: the second component of \<^verbatim>\<open>splitext\<close> without its dot.\<close>

definition ext_of :: "string \<Rightarrow> string" where
  "ext_of fname = drop 1 (snd (splitext fname))"

text \<open>A string between single quotes, as the format strings of the messages write it.\<close>

definition quoted :: "string \<Rightarrow> string" where
  "quoted x = [CHR 0x27] @ x @ [CHR 0x27]"

text \<open>
  An \<^verbatim>\<open>assert\<close> statement: it raises an \<^verbatim>\<open>AssertionError\<close> with its message when the
  condition is false and assertions are enabled, and does nothing otherwise.
\<close>

definition py_assert :: "bool \<Rightarrow> bool \<Rightarrow> string \<Rightarrow> error option" where
  "py_assert dbg cond msg = (if dbg \<and> \<not> cond then Some (AssertionError msg) else None)"

text \<open>
  \<^verbatim>\<open>savefig\<close> up to its last statement: the result is the keyword arguments of the
  call \<^verbatim>\<open>self.psconvert(prefix=prefix, fmt=fmt, crop=crop, portrait=portrait, **kwargs)\<close>.
  The first argument is \<^verbatim>\<open>__debug__\<close>. Without assertions \<^verbatim>\<open>fmts[ext]\<close> raises a
  \<^verbatim>\<open>KeyError\<close> for an extension that is not in the table.
  Python refuses the call with a \<^verbatim>\<open>TypeError\<close> when \<^verbatim>\<open>kwargs\<close> repeats one of the
  keywords written out (\<^verbatim>\<open>crop\<close> cannot be in \<^verbatim>\<open>kwargs\<close>: it is a parameter of
  \<^verbatim>\<open>savefig\<close>).
\<close>

definition savefig_call ::
  "bool \<Rightarrow> string \<Rightarrow> string \<Rightarrow> bool \<Rightarrow> bool \<Rightarrow> kwargs \<Rightarrow> error + kwargs" where
  "savefig_call dbg fname orientation transparent crop kw =
     (case py_assert dbg (orientation \<in> set [''portrait'', ''landscape''])
             (''Invalid orientation '' @ quoted orientation @ ''.'') of
        Some err \<Rightarrow> Inl err
      | None \<Rightarrow>
          (let portrait = (orientation = ''portrait'');
               (prefix, ext0) = splitext fname;
               ext = drop 1 ext0
           in (case py_assert dbg (fmts ext \<noteq> None)
                      (''Unknown extension '' @ quoted (''.'' @ ext)) of
                 Some err \<Rightarrow> Inl err
               | None \<Rightarrow>
                   (case fmts ext of
                      None \<Rightarrow> Inl (KeyError ext)
                    | Some fmt0 \<Rightarrow>
                        (case (if transparent
                               then py_assert dbg (ext = ''png'')
                                      (''Transparency unavailable for '' @ quoted ext
                                       @ '', only for png.'')
                               else None) of
                           Some err \<Rightarrow> Inl err
                         | None \<Rightarrow>
                             (let fmt = (if transparent then upper fmt0 else fmt0)
                              in if kw ''prefix'' \<noteq> None \<or> kw ''fmt'' \<noteq> None
                                    \<or> kw ''portrait'' \<noteq> None
                                 then Inl (TypeError
                                        ''psconvert() got multiple values for keyword argument'')
                                 else Inr (kw(''prefix'' \<mapsto> PStr prefix,
                                              ''fmt'' \<mapsto> PStr fmt,
                                              ''crop'' \<mapsto> PBool crop,
                                              ''portrait'' \<mapsto> PBool portrait))))))))"

definition savefig :: "'g env \<Rightarrow> string \<Rightarrow> string \<Rightarrow> bool \<Rightarrow> bool \<Rightarrow> kwargs \<Rightarrow> ('g, unit) py" where
  "savefig e fname orientation transparent crop kw s =
     (case savefig_call (debug e) fname orientation transparent crop kw of
        Inl err \<Rightarrow> (Inl err, s)
      | Inr kw' \<Rightarrow> psconvert e kw' s)"

text \<open>What \<^verbatim>\<open>_preview\<close> returns: a file name, or the content of the file.\<close>

datatype preview_result = PreviewName string | PreviewBytes bytes

text \<open>Lines 320 to 323 of \<^verbatim>\<open>_preview\<close>.\<close>

definition savefig_args :: "int \<Rightarrow> bool \<Rightarrow> kwargs" where
  "savefig_args dpi anti_alias =
     (let args = [''dpi'' \<mapsto> PInt dpi]
      in if anti_alias then args(''Qg'' \<mapsto> PInt 4, ''Qt'' \<mapsto> PInt 4) else args)"

text \<open>Lines 324 and 325 of \<^verbatim>\<open>_preview\<close>.\<close>

definition preview_fname :: "Figure \<Rightarrow> string \<Rightarrow> string" where
  "preview_fname f fmt = path_join (preview_dir f) (name f @ ''.'' @ fmt)"

definition preview :: "'g env \<Rightarrow> string \<Rightarrow> int \<Rightarrow> bool \<Rightarrow> bool \<Rightarrow> ('g, preview_result) py" where
  "preview e fmt dpi anti_alias as_bytes s =
     (let fname = preview_fname (self s) fmt
      in case savefig e fname ''portrait'' False True (savefig_args dpi anti_alias) s of
           (Inl err, s1) \<Rightarrow> (Inl err, s1)
         | (Inr _, s1) \<Rightarrow>
             if as_bytes
             then (case read_bytes fname s1 of
                     (Inl err, s2) \<Rightarrow> (Inl err, s2)
                   | (Inr b, s2) \<Rightarrow> (Inr (PreviewBytes b), s2))
             else (Inr (PreviewName fname), s1))"

text \<open>
  \<^verbatim>\<open>IPython.display.Image(data=.., width=..)\<close>; the name \<^verbatim>\<open>Image\<close> is \<^verbatim>\<open>None\<close> when
  IPython cannot be imported, and calling it raises a \<^verbatim>\<open>TypeError\<close>.
\<close>

record Image =
  data :: bytes
  width :: int

datatype show_result = NoValue | ImageValue Image

text \<open>The argument of \<^verbatim>\<open>launch_external_viewer\<close> and of \<^verbatim>\<open>Image\<close> as Python passes it.\<close>

definition preview_value :: "preview_result \<Rightarrow> string" where
  "preview_value r = (case r of PreviewName f \<Rightarrow> f | PreviewBytes b \<Rightarrow> b)"

definition show_fig :: "'g env \<Rightarrow> int \<Rightarrow> int \<Rightarrow> bool \<Rightarrow> ('g, show_result) py" where
  "show_fig e dpi wd external s =
     (if external then
        (case preview e ''pdf'' 600 False False s of
           (Inl err, s1) \<Rightarrow> (Inl err, s1)
         | (Inr pdf, s1) \<Rightarrow>
             (case launch_external_viewer e (preview_value pdf) s1 of
                (Inl err, s2) \<Rightarrow> (Inl err, s2)
              | (Inr _, s2) \<Rightarrow> (Inr NoValue, s2)))
      else
        (case preview e ''png'' dpi True True s of
           (Inl err, s1) \<Rightarrow> (Inl err, s1)
         | (Inr png, s1) \<Rightarrow>
             if ipython e
             then (Inr (ImageValue \<lparr>data = preview_value png, width = wd\<rparr>), s1)
             else (Inl (TypeError ''NoneType object is not callable''), s1)))"



subsection \<open>Operations, and a concrete environment\<close>

text \<open>The native call that selects the figure of \<^verbatim>\<open>self\<close>, and whether the library accepts it.\<close>

definition select_call :: "'g state \<Rightarrow> string \<times> string" where
  "select_call s = (''figure'', name (self s) @ '' -'')"

definition select_ok :: "'g env \<Rightarrow> 'g state \<Rightarrow> bool" where
  "select_ok e s = fst (gmt_module e ''figure'' (name (self s) @ '' -'') (gmt s) (fs s))"



text \<open>Modelled from the spec: \<^verbatim>\<open>kwargs_to_strings\<close> of \<^verbatim>\<open>gmt/decorators.py\<close> is not among the
  sources. The spec has the keyword arguments of the convert wrapper mapped to the option
  flags of the native library (sections 1 and 4.3), and the body of \<^verbatim>\<open>psconvert\<close> writes an
  option that is switched on as the empty string (lines 199 and 202). A flag that is off is
  a flag that is absent: a boolean \<^verbatim>\<open>True\<close> becomes the empty string, an entry that is
  \<^verbatim>\<open>False\<close> is removed, every other entry is kept.\<close>

definition remove_bools :: "kwargs \<Rightarrow> kwargs" where
  "remove_bools kw =
     (\<lambda>k. case kw k of
             Some (PBool b) \<Rightarrow> (if b then Some (PStr []) else None)
           | v \<Rightarrow> v)"

text \<open>Modelled from the spec: \<^verbatim>\<open>use_alias\<close> of \<^verbatim>\<open>gmt/decorators.py\<close> is not among the sources.
  The spec has the friendly keywords mapped to the short option flags (section 1); the table
  is the one written on \<^verbatim>\<open>psconvert\<close> (line 139). A long keyword that is given is moved to
  its flag.\<close>

definition demo_use_alias :: "(string \<times> string) list \<Rightarrow> kwargs \<Rightarrow> kwargs" where
  "demo_use_alias al kw =
     (\<lambda>k. case map_of al k of
             Some long \<Rightarrow> (case kw long of Some v \<Rightarrow> Some v | None \<Rightarrow> kw k)
           | None \<Rightarrow> if k \<in> snd ` set al then None else kw k)"

text \<open>A concrete environment and state on which the theorems are instantiated: a library that
  accepts every call and writes the converted file, a child process that exits with
  status 3, the candidate names \<^verbatim>\<open>a\<close>, \<^verbatim>\<open>aa\<close>, \<^verbatim>\<open>aaa\<close> and so on, and an argument string
  that is the name of the output file. \<^verbatim>\<open>flag_env\<close> turns booleans into flags and writes
  the flags \<^verbatim>\<open>A\<close>, \<^verbatim>\<open>F\<close>, \<^verbatim>\<open>P\<close>, \<^verbatim>\<open>T\<close> in this order; \<^verbatim>\<open>optimized_env\<close> is
  the same under \<^verbatim>\<open>python -O\<close>.\<close>

definition demo_env :: "nat env" where
  "demo_env =
     \<lparr>debug = True,
      platform = ''linux'',
      gmt_module = (\<lambda>m a g f. (True, Suc g, if m = ''psconvert'' then f(a \<mapsto> File ''image'') else f)),
      use_alias = demo_use_alias,
      kwargs_to_strings = (\<lambda>kw. kw),
      build_arg_string =
        (\<lambda>kw. case (kw ''F'', kw ''T'') of
                 (Some (PStr p), Some (PStr t)) \<Rightarrow>
                   p @ (if t = ''g'' then ''.png'' else if t = ''f'' then ''.pdf'' else ''.out'')
               | _ \<Rightarrow> []),
      run_child = (\<lambda>args. Some 3),
      candidates = (\<lambda>i. replicate (Suc i) CHR ''a''),
      tmp_max = 238328,
      tempdir = ''/tmp'',
      ipython = True,
      encodebytes = (\<lambda>b. b)\<rparr>"

definition show_flag :: "kwargs \<Rightarrow> string \<Rightarrow> string" where
  "show_flag kw k = (case kw k of Some (PStr v) \<Rightarrow> '' -'' @ k @ v | _ \<Rightarrow> [])"

definition demo_arg_string :: "kwargs \<Rightarrow> string" where
  "demo_arg_string kw = drop 1 (concat (map (show_flag kw) [''A'', ''F'', ''P'', ''T'']))"

definition flag_env :: "nat env" where
  "flag_env = demo_env\<lparr>kwargs_to_strings := remove_bools, build_arg_string := demo_arg_string\<rparr>"

definition optimized_env :: "nat env" where
  "optimized_env = flag_env\<lparr>debug := False\<rparr>"

definition demo_state :: "nat state" where
  "demo_state =
     \<lparr>self = \<lparr>name = ''gmt-python-x'', preview_dir = ''/tmp/gmt-python-x-preview-y''\<rparr>,
      calls = [], events = [], fs = Map.empty, gmt = 0, drawn = 0\<rparr>"

text \<open>The same environment with a random source that draws the candidate \<^verbatim>\<open>a\<close> a second time.\<close>

definition repeat_env :: "nat env" where
  "repeat_env = demo_env\<lparr>candidates := (\<lambda>i. if i = 2 then ''a'' else replicate (Suc i) CHR ''a'')\<rparr>"

text \<open>The file system a native call leaves behind when it is made in a given state.\<close>

definition native_fs :: "'g env \<Rightarrow> string \<Rightarrow> string \<Rightarrow> 'g state \<Rightarrow> (string \<rightharpoonup> node)" where
  "native_fs e module args s = snd (snd (gmt_module e module args (gmt s) (fs s)))"

text \<open>A library whose conversion writes a file that is longer at every call, so that the file of a later conversion differs from the file of an earlier one.\<close>

definition counting_env :: "nat env" where
  "counting_env =
     demo_env\<lparr>gmt_module :=
       (\<lambda>m a g f. (True, Suc g,
          if m = ''psconvert'' then f(a \<mapsto> File (replicate g CHR ''#'')) else f))\<rparr>"

section \<open>Properties\<close>

lemma rfind_last:
  "c \<notin> set n \<Longrightarrow> rfind c (q @ c # n) = int (length q)"
proof -
  have "takeWhile (\<lambda>x. x \<noteq> c) (rev n @ c # rev q) = rev n"
    if "c \<notin> set n"
    using that by (subst takeWhile_append2) auto
  then show "c \<notin> set n \<Longrightarrow> rfind c (q @ c # n) = int (length q)"
    by (simp add: rfind_def)
qed

lemma rfind_absent: "c \<notin> set p \<Longrightarrow> rfind c p = - 1"
  by (simp add: rfind_def)

lemma rfind_sep:
  assumes "q = [] \<or> last q = c" and "c \<notin> set n"
  shows "rfind c (q @ n) = int (length q) - 1"
proof (cases "q = []")
  case True
  with assms show ?thesis by (simp add: rfind_absent)
next
  case False
  with assms obtain q' where q: "q = q' @ [c]"
    by (metis append_butlast_last_id)
  show ?thesis using rfind_last [OF assms(2), of q'] by (simp add: q)
qed

lemma splitext_stem:
  assumes q: "q = [] \<or> last q = CHR ''/''"
    and n: "CHR ''/'' \<notin> set n" "list_ex (\<lambda>c. c \<noteq> CHR ''.'') n"
    and e: "CHR ''.'' \<notin> set e" "CHR ''/'' \<notin> set e"
  shows "splitext (q @ n @ CHR ''.'' # e) = (q @ n, CHR ''.'' # e)"
proof -
  have sep: "rfind CHR ''/'' (q @ n @ CHR ''.'' # e) = int (length q) - 1"
    using rfind_sep [OF q, of "n @ CHR ''.'' # e"] n e by simp
  have dot: "rfind CHR ''.'' (q @ n @ CHR ''.'' # e) = int (length (q @ n))"
    using rfind_last [OF e(1), of "q @ n"] by simp
  have ne: "n \<noteq> []" using n(2) by auto
  show ?thesis
    unfolding splitext_def sep dot Let_def using n(2) ne
    by (simp add: nat_diff_distrib)
qed

lemma split_tail_sep:
  "CHR ''/'' \<notin> set n \<Longrightarrow> split_tail (q @ CHR ''/'' # n) = n"
proof -
  assume "CHR ''/'' \<notin> set n"
  then have "rfind CHR ''/'' (q @ CHR ''/'' # n) = int (length q)"
    by (rule rfind_last)
  moreover have "nat (int (length q) + 1) = Suc (length q)" by simp
  ultimately show ?thesis by (simp add: split_tail_def)
qed

lemma upper_g: "upper ''g'' = ''G''"
  by code_simp

lemma call_module_eq:
  "call_module e m a s =
     (if fst (gmt_module e m a (gmt s) (fs s)) then Inr () else Inl (GMTCLibError m),
      s\<lparr>calls := calls s @ [(m, a)],
        gmt := fst (snd (gmt_module e m a (gmt s) (fs s))),
        fs := snd (snd (gmt_module e m a (gmt s) (fs s)))\<rparr>)"
  by (simp add: call_module_def split: prod.splits)

lemma figure_eq: "figure e nm s = call_module e ''figure'' (nm @ '' -'') s"
  by (simp add: figure_def)

lemma psconvert_body_calls:
  "calls (snd (psconvert_body e kw s)) =
     calls s @ select_call s #
       (if select_ok e s then [(''psconvert'', build_arg_string e (psconvert_defaults kw))] else [])"
  by (simp add: psconvert_body_def preprocess_def figure_eq call_module_eq select_call_def
      select_ok_def)

lemma psconvert_body_self: "self (snd (psconvert_body e kw s)) = self s"
  by (simp add: psconvert_body_def preprocess_def figure_eq call_module_eq)

lemma savefig_call_invalid:
  assumes "fmts (ext_of fname) = None \<or> orientation \<notin> {''portrait'', ''landscape''}
           \<or> (transparent \<and> ext_of fname \<noteq> ''png'')"
  shows "\<exists>msg. savefig_call True fname orientation transparent crop kw = Inl (AssertionError msg)"
  using assms
  by (cases "splitext fname")
     (auto simp: savefig_call_def py_assert_def ext_of_def Let_def split: option.splits)

lemma savefig_raises:
  assumes "debug e"
    and "fmts (ext_of fname) = None \<or> orientation \<notin> {''portrait'', ''landscape''}
           \<or> (transparent \<and> ext_of fname \<noteq> ''png'')"
  shows "\<exists>msg. savefig e fname orientation transparent crop kw s = (Inl (AssertionError msg), s)"
proof -
  from savefig_call_invalid [OF assms(2)]
  obtain msg where "savefig_call True fname orientation transparent crop kw = Inl (AssertionError msg)"
    by blast
  with assms(1) show ?thesis by (simp add: savefig_def)
qed

lemma fmts_dom: "fmts x = Some c \<longleftrightarrow>
   (x, c) \<in> {(''png'', ''g''), (''pdf'', ''f''), (''jpg'', ''j''), (''bmp'', ''b''),
              (''eps'', ''e''), (''tif'', ''t'')}"
  by (auto simp: fmts_def split: if_splits)

lemma splitext_concat: "fst (splitext p) @ snd (splitext p) = p"
  by (simp add: splitext_def Let_def)

lemma savefig_call_Inr:
  assumes "savefig_call dbg fname orientation transparent crop kw = Inr kw'"
  shows "\<exists>code. fmts (ext_of fname) = Some code \<and>
           kw' = kw(''prefix'' \<mapsto> PStr (fst (splitext fname)),
                    ''fmt'' \<mapsto> PStr (if transparent then upper code else code),
                    ''crop'' \<mapsto> PBool crop,
                    ''portrait'' \<mapsto> PBool (orientation = ''portrait''))"
  using assms
  by (cases "splitext fname")
     (auto simp: savefig_call_def py_assert_def ext_of_def Let_def split: option.splits if_splits)

lemma rfind_ge: "- 1 \<le> rfind c p"
proof (cases "c \<in> set p")
  case True
  have "length (takeWhile (\<lambda>x. x \<noteq> c) (rev p)) \<le> length p"
    using length_takeWhile_le [of "\<lambda>x. x \<noteq> c" "rev p"] by simp
  with True show ?thesis by (simp add: rfind_def)
next
  case False
  then show ?thesis by (simp add: rfind_def)
qed

lemma rfind_drop:
  assumes "c \<in> set p"
  shows "\<exists>n. drop (nat (rfind c p)) p = c # n"
proof -
  from split_list_last [OF assms] obtain q n where p: "p = q @ c # n" and n: "c \<notin> set n"
    by blast
  have "rfind c p = int (length q)" unfolding p using n by (rule rfind_last)
  then show ?thesis by (simp add: p)
qed

lemma splitext_ext:
  "snd (splitext p) = [] \<or> (\<exists>n. snd (splitext p) = CHR ''.'' # n)"
proof (cases "CHR ''.'' \<in> set p")
  case True
  from rfind_drop [OF True] show ?thesis by (auto simp: splitext_def Let_def)
next
  case False
  then have "rfind CHR ''.'' p = - 1" by (rule rfind_absent)
  moreover have "- 1 \<le> rfind CHR ''/'' p" by (rule rfind_ge)
  ultimately show ?thesis by (simp add: splitext_def Let_def)
qed

lemma ext_dot:
  assumes "ext_of fname \<noteq> []"
  shows "fname = fst (splitext fname) @ ''.'' @ ext_of fname"
proof -
  from assms have "snd (splitext fname) \<noteq> []" by (auto simp: ext_of_def)
  with splitext_ext [of fname] obtain n where n: "snd (splitext fname) = CHR ''.'' # n"
    by blast
  then have "ext_of fname = n" by (simp add: ext_of_def)
  with n splitext_concat [of fname] show ?thesis by simp
qed

text \<open>
  Claim C5. The table \<^verbatim>\<open>fmts\<close> has exactly the six entries png/g, pdf/f, jpg/j,
  bmp/b, eps/e, tif/t. Whenever \<^verbatim>\<open>savefig\<close> reaches its call of \<^verbatim>\<open>psconvert\<close>, the
  extension is one of the six and the format is its code (in upper case when transparency
  is asked for), the prefix is the file name without its last dot and the extension, and
  the keyword arguments are the caller's with \<^verbatim>\<open>prefix\<close>, \<^verbatim>\<open>fmt\<close>, \<^verbatim>\<open>crop\<close> and
  \<^verbatim>\<open>portrait\<close> added and nothing else changed.
\<close>

theorem savefig_table_prefix_passthrough:
  assumes "savefig_call (debug e) fname orientation transparent crop kw = Inr kw'"
  shows "(\<forall>x c. fmts x = Some c \<longleftrightarrow>
            (x, c) \<in> {(''png'', ''g''), (''pdf'', ''f''), (''jpg'', ''j''), (''bmp'', ''b''),
                      (''eps'', ''e''), (''tif'', ''t'')})
         \<and> (\<exists>code. fmts (ext_of fname) = Some code \<and> (ext_of fname, code) \<in>
              {(''png'', ''g''), (''pdf'', ''f''), (''jpg'', ''j''), (''bmp'', ''b''),
               (''eps'', ''e''), (''tif'', ''t'')} \<and>
            kw' = kw(''prefix'' \<mapsto> PStr (fst (splitext fname)),
                     ''fmt'' \<mapsto> PStr (if transparent then upper code else code),
                     ''crop'' \<mapsto> PBool crop,
                     ''portrait'' \<mapsto> PBool (orientation = ''portrait'')))
         \<and> fname = fst (splitext fname) @ ''.'' @ ext_of fname
         \<and> savefig e fname orientation transparent crop kw s = psconvert e kw' s"
proof -
  from savefig_call_Inr [OF assms] obtain code where
    c: "fmts (ext_of fname) = Some code" and
    k: "kw' = kw(''prefix'' \<mapsto> PStr (fst (splitext fname)),
                     ''fmt'' \<mapsto> PStr (if transparent then upper code else code),
                     ''crop'' \<mapsto> PBool crop,
                     ''portrait'' \<mapsto> PBool (orientation = ''portrait''))"
    by blast
  from c have m: "(ext_of fname, code) \<in>
              {(''png'', ''g''), (''pdf'', ''f''), (''jpg'', ''j''), (''bmp'', ''b''),
               (''eps'', ''e''), (''tif'', ''t'')}"
    by (simp only: fmts_dom)
  then have "ext_of fname \<noteq> []" by auto
  then have d: "fname = fst (splitext fname) @ ''.'' @ ext_of fname" by (rule ext_dot)
  have "savefig e fname orientation transparent crop kw s = psconvert e kw' s"
    using assms by (simp add: savefig_def)
  moreover note fmts_dom
  ultimately show ?thesis using c m k d by blast
qed

lemma savefig_call_ok:
  assumes "fmts (ext_of fname) = Some code"
    and "orientation \<in> {''portrait'', ''landscape''}"
    and "transparent \<longrightarrow> ext_of fname = ''png''"
    and "kw ''prefix'' = None" "kw ''fmt'' = None" "kw ''portrait'' = None"
  shows "savefig_call dbg fname orientation transparent crop kw =
           Inr (kw(''prefix'' \<mapsto> PStr (fst (splitext fname)),
                    ''fmt'' \<mapsto> PStr (if transparent then upper code else code),
                    ''crop'' \<mapsto> PBool crop,
                    ''portrait'' \<mapsto> PBool (orientation = ''portrait'')))"
  using assms
  by (cases "splitext fname")
     (auto simp: savefig_call_def py_assert_def ext_of_def Let_def split: option.splits if_splits)

lemma savefig_call_unchecked:
  assumes "fmts (ext_of fname) = Some code"
    and "kw ''prefix'' = None" "kw ''fmt'' = None" "kw ''portrait'' = None"
  shows "savefig_call False fname orientation transparent crop kw =
           Inr (kw(''prefix'' \<mapsto> PStr (fst (splitext fname)),
                    ''fmt'' \<mapsto> PStr (if transparent then upper code else code),
                    ''crop'' \<mapsto> PBool crop,
                    ''portrait'' \<mapsto> PBool (orientation = ''portrait'')))"
  using assms
  by (cases "splitext fname")
     (auto simp: savefig_call_def py_assert_def ext_of_def Let_def split: option.splits if_splits)

lemma savefig_call_KeyError:
  assumes "fmts (ext_of fname) = None"
  shows "savefig_call False fname orientation transparent crop kw = Inl (KeyError (ext_of fname))"
  using assms
  by (cases "splitext fname")
     (auto simp: savefig_call_def py_assert_def ext_of_def Let_def split: option.splits if_splits)

lemma savefig_unchecked:
  assumes "\<not> debug e" and "fmts (ext_of fname) = Some code"
    and "kw ''prefix'' = None" "kw ''fmt'' = None" "kw ''portrait'' = None"
  shows "savefig e fname orientation transparent crop kw s =
           psconvert e (kw(''prefix'' \<mapsto> PStr (fst (splitext fname)),
                    ''fmt'' \<mapsto> PStr (if transparent then upper code else code),
                    ''crop'' \<mapsto> PBool crop,
                    ''portrait'' \<mapsto> PBool (orientation = ''portrait''))) s"
  using assms(1) savefig_call_unchecked [OF assms(2-5), of orientation transparent crop]
  by (simp add: savefig_def)

lemma savefig_png_G:
  assumes p: "ext_of fname = ''png''"
  shows "(\<forall>kw'. savefig_call dbg fname orientation True crop kw = Inr kw' \<longrightarrow>
             kw' ''fmt'' = Some (PStr ''G'')) \<and>
      (orientation \<in> {''portrait'', ''landscape''} \<and>
       kw ''prefix'' = None \<and> kw ''fmt'' = None \<and> kw ''portrait'' = None \<longrightarrow>
         (\<exists>kw'. savefig_call dbg fname orientation True crop kw = Inr kw' \<and>
                kw' ''fmt'' = Some (PStr ''G'')))"
proof (intro conjI impI allI)
  fix kw'
  assume r: "savefig_call dbg fname orientation True crop kw = Inr kw'"
  from savefig_call_Inr [OF r] p show "kw' ''fmt'' = Some (PStr ''G'')"
    by (auto simp: fmts_dom upper_g)
next
  assume h: "orientation \<in> {''portrait'', ''landscape''} \<and>
       kw ''prefix'' = None \<and> kw ''fmt'' = None \<and> kw ''portrait'' = None"
  have f: "fmts (ext_of fname) = Some ''g''" by (simp add: p fmts_dom)
  have "savefig_call dbg fname orientation True crop kw =
           Inr (kw(''prefix'' \<mapsto> PStr (fst (splitext fname)),
                    ''fmt'' \<mapsto> PStr (if True then upper ''g'' else ''g''),
                    ''crop'' \<mapsto> PBool crop,
                    ''portrait'' \<mapsto> PBool (orientation = ''portrait'')))"
    using h p by (intro savefig_call_ok [OF f]) simp_all
  then show "\<exists>kw'. savefig_call dbg fname orientation True crop kw = Inr kw' \<and>
                kw' ''fmt'' = Some (PStr ''G'')"
    by (simp add: upper_g)
qed

lemma psconvert_defaults_eq:
  "psconvert_defaults kw k =
     (if (k = ''A'' \<or> k = ''P'') \<and> kw k = None then Some (PStr []) else kw k)"
  by (simp add: psconvert_defaults_def Let_def)

lemma psconvert_calls:
  "calls (snd (psconvert e kw s)) =
     calls s @ select_call s #
       (if select_ok e s
        then [(''psconvert'', build_arg_string e (psconvert_defaults (decorated e kw)))] else [])"
  by (simp add: psconvert_def psconvert_body_calls)

lemma psconvert_self: "self (snd (psconvert e kw s)) = self s"
  by (simp add: psconvert_def psconvert_body_self)

lemma savefig_self: "self (snd (savefig e fname orientation transparent crop kw s)) = self s"
  by (simp add: savefig_def psconvert_self split: sum.splits)

lemma savefig_calls_Inr:
  "savefig_call (debug e) fname orientation transparent crop kw = Inr kw' \<Longrightarrow>
   calls (snd (savefig e fname orientation transparent crop kw s)) =
     calls s @ select_call s #
       (if select_ok e s
        then [(''psconvert'', build_arg_string e (psconvert_defaults (decorated e kw')))] else [])"
  by (simp add: savefig_def psconvert_calls)

lemma savefig_calls_Inl:
  "savefig_call (debug e) fname orientation transparent crop kw = Inl err \<Longrightarrow>
   savefig e fname orientation transparent crop kw s = (Inl err, s)"
  by (simp add: savefig_def)

lemma read_bytes_state: "snd (read_bytes fname s) = s"
  by (simp add: read_bytes_def split: option.splits node.splits)

lemma preview_state:
  "snd (preview e fmt dpi aa ab s) =
     snd (savefig e (preview_fname (self s) fmt) ''portrait'' False True (savefig_args dpi aa) s)"
proof -
  obtain r s1 where
    sv: "savefig e (preview_fname (self s) fmt) ''portrait'' False True (savefig_args dpi aa) s = (r, s1)"
    by (cases "savefig e (preview_fname (self s) fmt) ''portrait'' False True (savefig_args dpi aa) s")
  obtain rb sb where rd: "read_bytes (preview_fname (self s) fmt) s1 = (rb, sb)"
    by (cases "read_bytes (preview_fname (self s) fmt) s1")
  from rd read_bytes_state [of "preview_fname (self s) fmt" s1] have "sb = s1" by simp
  with sv rd show ?thesis
    by (simp add: preview_def Let_def split: sum.splits)
qed

lemma preview_self: "self (snd (preview e fmt dpi aa ab s)) = self s"
  by (simp add: preview_state savefig_self)

lemma subprocess_run_self: "self (snd (subprocess_run e args out err check s)) = self s"
  by (simp add: subprocess_run_def Let_def split: option.splits)

lemma subprocess_run_calls: "calls (snd (subprocess_run e args out err check s)) = calls s"
  by (simp add: subprocess_run_def Let_def split: option.splits)

lemma launch_self: "self (snd (launch_external_viewer e fname s)) = self s"
proof -
  have "self (snd (case subprocess_run e args DEVNULL DEVNULL False s of
           (Inl err, s1) \<Rightarrow> (Inl err, s1)
         | (Inr _, s1) \<Rightarrow> (Inr (), s1))) = self s" for args
    using subprocess_run_self [of e args DEVNULL DEVNULL False s]
    by (cases "subprocess_run e args DEVNULL DEVNULL False s") (auto split: sum.splits)
  then show ?thesis
    by (simp add: launch_external_viewer_def webbrowser_open_new_tab_def)
qed

lemma launch_calls: "calls (snd (launch_external_viewer e fname s)) = calls s"
proof -
  have "calls (snd (case subprocess_run e args DEVNULL DEVNULL False s of
           (Inl err, s1) \<Rightarrow> (Inl err, s1)
         | (Inr _, s1) \<Rightarrow> (Inr (), s1))) = calls s" for args
    using subprocess_run_calls [of e args DEVNULL DEVNULL False s]
    by (cases "subprocess_run e args DEVNULL DEVNULL False s") (auto split: sum.splits)
  then show ?thesis
    by (simp add: launch_external_viewer_def webbrowser_open_new_tab_def)
qed

lemma show_external_state:
  "self (snd (show_fig e dpi wd True s)) = self s \<and>
   calls (snd (show_fig e dpi wd True s)) = calls (snd (preview e ''pdf'' 600 False False s))"
proof -
  obtain r s1 where p: "preview e ''pdf'' 600 False False s = (r, s1)"
    by (cases "preview e ''pdf'' 600 False False s")
  from preview_self [of e "''pdf''" 600 False False s] p have s1: "self s1 = self s" by simp
  show ?thesis
  proof (cases r)
    case (Inl err)
    with p s1 show ?thesis by (simp add: show_fig_def)
  next
    case (Inr pdf)
    obtain r2 s2 where l: "launch_external_viewer e (preview_value pdf) s1 = (r2, s2)"
      by (cases "launch_external_viewer e (preview_value pdf) s1")
    from l launch_self [of e "preview_value pdf" s1] launch_calls [of e "preview_value pdf" s1]
    have "self s2 = self s1" "calls s2 = calls s1" by simp_all
    with p Inr l s1 show ?thesis by (simp add: show_fig_def split: sum.splits)
  qed
qed

lemma show_embedded_state:
  "snd (show_fig e dpi wd False s) = snd (preview e ''png'' dpi True True s)"
  by (cases "preview e ''png'' dpi True True s") (simp add: show_fig_def split: sum.splits)






text \<open>
  Claim C2. Every call of \<^verbatim>\<open>psconvert\<close> first appends the native call
  \<^verbatim>\<open>figure\<close> with the argument string made of the name of the figure, a blank and the
  format \<^verbatim>\<open>-\<close>; the native call \<^verbatim>\<open>psconvert\<close> comes after it, and is made only when the
  selection did not fail. The same holds for \<^verbatim>\<open>savefig\<close> whenever its arguments are
  accepted; when they are refused no native call is made at all.
\<close>

theorem psconvert_selects_figure_first:
  "calls (snd (psconvert e kw s)) =
     calls s @ (''figure'', name (self s) @ '' -'') #
       (if select_ok e s
        then [(''psconvert'', build_arg_string e (psconvert_defaults (decorated e kw)))] else [])
   \<and> (case savefig_call (debug e) fname orientation transparent crop kw of
        Inl err \<Rightarrow> calls (snd (savefig e fname orientation transparent crop kw s)) = calls s
      | Inr kw' \<Rightarrow>
          calls (snd (savefig e fname orientation transparent crop kw s)) =
            calls s @ (''figure'', name (self s) @ '' -'') #
              (if select_ok e s
               then [(''psconvert'', build_arg_string e (psconvert_defaults (decorated e kw')))]
               else []))"
proof
  show "calls (snd (psconvert e kw s)) =
     calls s @ (''figure'', name (self s) @ '' -'') #
       (if select_ok e s
        then [(''psconvert'', build_arg_string e (psconvert_defaults (decorated e kw)))] else [])"
    using psconvert_calls [of e kw s] by (simp add: select_call_def)
next
  show "case savefig_call (debug e) fname orientation transparent crop kw of
        Inl err \<Rightarrow> calls (snd (savefig e fname orientation transparent crop kw s)) = calls s
      | Inr kw' \<Rightarrow>
          calls (snd (savefig e fname orientation transparent crop kw s)) =
            calls s @ (''figure'', name (self s) @ '' -'') #
              (if select_ok e s
               then [(''psconvert'', build_arg_string e (psconvert_defaults (decorated e kw')))]
               else [])"
  proof (cases "savefig_call (debug e) fname orientation transparent crop kw")
    case (Inl err)
    then show ?thesis by (simp add: savefig_calls_Inl)
  next
    case (Inr kw')
    from savefig_calls_Inr [OF Inr, of s] Inr show ?thesis by (simp add: select_call_def)
  qed
qed

lemma upper_f: "upper ''f'' = ''F''"
  by code_simp

text \<open>
  Claim C1. The three checks of \<^verbatim>\<open>savefig\<close> are \<^verbatim>\<open>assert\<close> statements. With assertions
  enabled, an extension outside the table, an orientation that is neither
  \<^verbatim>\<open>portrait\<close> nor \<^verbatim>\<open>landscape\<close>, or transparency for an extension other than
  \<^verbatim>\<open>png\<close> raises an \<^verbatim>\<open>AssertionError\<close> and leaves the state, hence the log of native
  calls, as it was. Under \<^verbatim>\<open>python -O\<close> the statements are gone: an unknown extension
  still stops at the table lookup (\<^verbatim>\<open>KeyError\<close>, no native call), but for an extension of
  the table every orientation and every value of \<^verbatim>\<open>transparent\<close> goes on to the figure
  selection and the conversion. So the property claimed does not hold of every call.
\<close>

theorem savefig_checks_are_assert_statements:
  "(debug e \<and> (fmts (ext_of fname) = None \<or> orientation \<notin> {''portrait'', ''landscape''}
               \<or> (transparent \<and> ext_of fname \<noteq> ''png'')) \<longrightarrow>
      (\<exists>msg. savefig e fname orientation transparent crop kw s = (Inl (AssertionError msg), s)))
   \<and> (\<not> debug e \<and> fmts (ext_of fname) = None \<longrightarrow>
        savefig e fname orientation transparent crop kw s = (Inl (KeyError (ext_of fname)), s))
   \<and> (\<not> debug e \<and> fmts (ext_of fname) = Some code \<and>
       kw ''prefix'' = None \<and> kw ''fmt'' = None \<and> kw ''portrait'' = None \<longrightarrow>
        calls (snd (savefig e fname orientation transparent crop kw s)) =
          calls s @ (''figure'', name (self s) @ '' -'') #
            (if select_ok e s
             then [(''psconvert'', build_arg_string e (psconvert_defaults (decorated e
                     (kw(''prefix'' \<mapsto> PStr (fst (splitext fname)),
                         ''fmt'' \<mapsto> PStr (if transparent then upper code else code),
                         ''crop'' \<mapsto> PBool crop,
                         ''portrait'' \<mapsto> PBool (orientation = ''portrait''))))))]
             else []))"
proof (intro conjI impI)
  assume "debug e \<and> (fmts (ext_of fname) = None \<or> orientation \<notin> {''portrait'', ''landscape''}
               \<or> (transparent \<and> ext_of fname \<noteq> ''png''))"
  then show "\<exists>msg. savefig e fname orientation transparent crop kw s = (Inl (AssertionError msg), s)"
    by (intro savefig_raises) blast+
next
  assume "\<not> debug e \<and> fmts (ext_of fname) = None"
  then show "savefig e fname orientation transparent crop kw s = (Inl (KeyError (ext_of fname)), s)"
    by (simp add: savefig_def savefig_call_KeyError)
next
  assume h: "\<not> debug e \<and> fmts (ext_of fname) = Some code \<and>
       kw ''prefix'' = None \<and> kw ''fmt'' = None \<and> kw ''portrait'' = None"
  then have "savefig e fname orientation transparent crop kw s =
           psconvert e (kw(''prefix'' \<mapsto> PStr (fst (splitext fname)),
                    ''fmt'' \<mapsto> PStr (if transparent then upper code else code),
                    ''crop'' \<mapsto> PBool crop,
                    ''portrait'' \<mapsto> PBool (orientation = ''portrait''))) s"
    by (intro savefig_unchecked) simp_all
  then show "calls (snd (savefig e fname orientation transparent crop kw s)) =
          calls s @ (''figure'', name (self s) @ '' -'') #
            (if select_ok e s
             then [(''psconvert'', build_arg_string e (psconvert_defaults (decorated e
                     (kw(''prefix'' \<mapsto> PStr (fst (splitext fname)),
                         ''fmt'' \<mapsto> PStr (if transparent then upper code else code),
                         ''crop'' \<mapsto> PBool crop,
                         ''portrait'' \<mapsto> PBool (orientation = ''portrait''))))))]
             else [])"
    by (simp add: psconvert_calls select_call_def)
qed

text \<open>
  Claim C4. With \<^verbatim>\<open>transparent=True\<close> and the extension \<^verbatim>\<open>png\<close>, the format code
  among the keyword arguments \<^verbatim>\<open>savefig\<close> hands to \<^verbatim>\<open>psconvert\<close> is \<^verbatim>\<open>G\<close>, and that call
  is reached whenever the orientation is valid and no keyword is given twice. With
  \<^verbatim>\<open>transparent=True\<close> and any other extension of the table, \<^verbatim>\<open>savefig\<close> raises an
  \<^verbatim>\<open>AssertionError\<close> and leaves the state as it was when assertions are enabled; under
  \<^verbatim>\<open>python -O\<close> it goes on to the native calls with the code of the extension in upper
  case. So the second half of the property claimed does not hold of every call.
\<close>

theorem savefig_transparent_format:
  "(ext_of fname = ''png'' \<longrightarrow>
      (\<forall>kw'. savefig_call (debug e) fname orientation True crop kw = Inr kw' \<longrightarrow>
             kw' ''fmt'' = Some (PStr ''G'')) \<and>
      (orientation \<in> {''portrait'', ''landscape''} \<and>
       kw ''prefix'' = None \<and> kw ''fmt'' = None \<and> kw ''portrait'' = None \<longrightarrow>
         (\<exists>kw'. savefig_call (debug e) fname orientation True crop kw = Inr kw' \<and>
                kw' ''fmt'' = Some (PStr ''G'') \<and>
                savefig e fname orientation True crop kw s = psconvert e kw' s)))
   \<and> (debug e \<and> ext_of fname \<in> {''pdf'', ''jpg'', ''bmp'', ''eps'', ''tif''} \<longrightarrow>
      (\<exists>msg. savefig e fname orientation True crop kw s = (Inl (AssertionError msg), s)))
   \<and> (\<not> debug e \<and> fmts (ext_of fname) = Some code \<and>
       kw ''prefix'' = None \<and> kw ''fmt'' = None \<and> kw ''portrait'' = None \<longrightarrow>
        calls (snd (savefig e fname orientation True crop kw s)) =
          calls s @ (''figure'', name (self s) @ '' -'') #
            (if select_ok e s
             then [(''psconvert'', build_arg_string e (psconvert_defaults (decorated e
                     (kw(''prefix'' \<mapsto> PStr (fst (splitext fname)),
                         ''fmt'' \<mapsto> PStr (upper code),
                         ''crop'' \<mapsto> PBool crop,
                         ''portrait'' \<mapsto> PBool (orientation = ''portrait''))))))]
             else []))"
proof (intro conjI impI allI)
  fix kw'
  assume "ext_of fname = ''png''"
    and "savefig_call (debug e) fname orientation True crop kw = Inr kw'"
  with savefig_png_G [of fname "debug e" orientation crop kw]
  show "kw' ''fmt'' = Some (PStr ''G'')" by blast
next
  assume "ext_of fname = ''png''"
    and "orientation \<in> {''portrait'', ''landscape''} \<and>
       kw ''prefix'' = None \<and> kw ''fmt'' = None \<and> kw ''portrait'' = None"
  with savefig_png_G [of fname "debug e" orientation crop kw]
  obtain kw' where k: "savefig_call (debug e) fname orientation True crop kw = Inr kw'"
    "kw' ''fmt'' = Some (PStr ''G'')"
    by blast
  then have "savefig e fname orientation True crop kw s = psconvert e kw' s"
    by (simp add: savefig_def)
  with k show "\<exists>kw'. savefig_call (debug e) fname orientation True crop kw = Inr kw' \<and>
                kw' ''fmt'' = Some (PStr ''G'') \<and>
                savefig e fname orientation True crop kw s = psconvert e kw' s"
    by blast
next
  assume "debug e \<and> ext_of fname \<in> {''pdf'', ''jpg'', ''bmp'', ''eps'', ''tif''}"
  then have "debug e" "True \<and> ext_of fname \<noteq> ''png''" by auto
  then show "\<exists>msg. savefig e fname orientation True crop kw s = (Inl (AssertionError msg), s)"
    by (intro savefig_raises) blast+
next
  assume h: "\<not> debug e \<and> fmts (ext_of fname) = Some code \<and>
       kw ''prefix'' = None \<and> kw ''fmt'' = None \<and> kw ''portrait'' = None"
  then have "savefig e fname orientation True crop kw s =
           psconvert e (kw(''prefix'' \<mapsto> PStr (fst (splitext fname)),
                    ''fmt'' \<mapsto> PStr (if True then upper code else code),
                    ''crop'' \<mapsto> PBool crop,
                    ''portrait'' \<mapsto> PBool (orientation = ''portrait''))) s"
    by (intro savefig_unchecked) simp_all
  then show "calls (snd (savefig e fname orientation True crop kw s)) =
          calls s @ (''figure'', name (self s) @ '' -'') #
            (if select_ok e s
             then [(''psconvert'', build_arg_string e (psconvert_defaults (decorated e
                     (kw(''prefix'' \<mapsto> PStr (fst (splitext fname)),
                         ''fmt'' \<mapsto> PStr (upper code),
                         ''crop'' \<mapsto> PBool crop,
                         ''portrait'' \<mapsto> PBool (orientation = ''portrait''))))))]
             else [])"
    by (simp add: psconvert_calls select_call_def)
qed

text \<open>
  Claim C6. When \<^verbatim>\<open>kwargs_to_strings\<close> turns booleans into flags, a value
  \<^verbatim>\<open>False\<close> the caller gives for \<^verbatim>\<open>A\<close> or \<^verbatim>\<open>P\<close> is removed before the body of
  \<^verbatim>\<open>psconvert\<close> runs, the body finds the option absent and sets it to the empty string:
  the caller's \<^verbatim>\<open>False\<close> ends as the bare flag, exactly as an omitted option and as
  \<^verbatim>\<open>True\<close> do. Only a string value is kept. So an option the caller omits does get its
  default before the argument string is built, but a value the caller supplies can be
  overridden, which the property claimed excludes.
\<close>

theorem psconvert_defaults_replace_false:
  assumes "kwargs_to_strings e = remove_bools"
    and "k = ''A'' \<or> k = ''P''"
  shows "(use_alias e psconvert_aliases kw k = Some (PBool False) \<longrightarrow>
            psconvert_defaults (decorated e kw) k = Some (PStr []))
     \<and> (use_alias e psconvert_aliases kw k = None \<longrightarrow>
            psconvert_defaults (decorated e kw) k = Some (PStr []))
     \<and> (use_alias e psconvert_aliases kw k = Some (PBool True) \<longrightarrow>
            psconvert_defaults (decorated e kw) k = Some (PStr []))
     \<and> (\<forall>v. use_alias e psconvert_aliases kw k = Some (PStr v) \<longrightarrow>
            psconvert_defaults (decorated e kw) k = Some (PStr v))
     \<and> calls (snd (psconvert e kw s)) =
         calls s @ (''figure'', name (self s) @ '' -'') #
           (if select_ok e s
            then [(''psconvert'', build_arg_string e (psconvert_defaults (decorated e kw)))]
            else [])"
proof -
  have d: "decorated e kw k =
             (case use_alias e psconvert_aliases kw k of
                Some (PBool b) \<Rightarrow> (if b then Some (PStr []) else None)
              | v \<Rightarrow> v)"
    by (simp add: decorated_def assms(1) remove_bools_def)
  have c: "calls (snd (psconvert e kw s)) =
         calls s @ (''figure'', name (self s) @ '' -'') #
           (if select_ok e s
            then [(''psconvert'', build_arg_string e (psconvert_defaults (decorated e kw)))]
            else [])"
    using psconvert_calls [of e kw s] by (simp add: select_call_def)
  show ?thesis
    using assms(2) c by (auto simp: psconvert_defaults_eq d)
qed

lemma optimized_select_ok: "select_ok optimized_env demo_state"
  by (simp add: select_ok_def optimized_env_def flag_env_def demo_env_def)

lemma optimized_debug: "\<not> debug optimized_env"
  by (simp add: optimized_env_def)

lemma flag_args:
  "build_arg_string optimized_env (psconvert_defaults (decorated optimized_env
      [''prefix'' \<mapsto> PStr p, ''fmt'' \<mapsto> PStr t, ''crop'' \<mapsto> PBool True,
       ''portrait'' \<mapsto> PBool b])) = ''-A -F'' @ p @ '' -P -T'' @ t"
  by (simp add: optimized_env_def flag_env_def demo_env_def decorated_def demo_use_alias_def
      psconvert_aliases_def remove_bools_def psconvert_defaults_def demo_arg_string_def
      show_flag_def Let_def)

text \<open>
  Claim C1 at the failing input: under \<^verbatim>\<open>python -O\<close>,
  \<^verbatim>\<open>savefig("map.png", orientation="sideways")\<close> makes both native calls.
\<close>

theorem savefig_checks_are_assert_statements_witness:
  "\<not> debug optimized_env
   \<and> ''sideways'' \<notin> {''portrait'', ''landscape''}
   \<and> fmts (ext_of ''map.png'') = Some ''g''
   \<and> calls (snd (savefig optimized_env ''map.png'' ''sideways'' False True Map.empty demo_state)) =
       [(''figure'', ''gmt-python-x -''), (''psconvert'', ''-A -Fmap -P -Tg'')]"
proof -
  have x: "ext_of ''map.png'' = ''png''" "fst (splitext ''map.png'') = ''map''"
    by (simp_all add: ext_of_def splitext_def rfind_def)
  have f: "fmts (ext_of ''map.png'') = Some ''g''" by (simp add: x fmts_def)
  have h: "\<not> debug optimized_env \<and> fmts (ext_of ''map.png'') = Some ''g'' \<and>
       Map.empty ''prefix'' = None \<and> Map.empty ''fmt'' = None \<and> Map.empty ''portrait'' = None"
    using optimized_debug f by simp
  from savefig_checks_are_assert_statements [where e = optimized_env and fname = "''map.png''"
      and code = "''g''" and kw = Map.empty and orientation = "''sideways''"
      and transparent = False and crop = True and s = demo_state] h
  have "calls (snd (savefig optimized_env ''map.png'' ''sideways'' False True Map.empty demo_state)) =
          calls demo_state @ (''figure'', name (self demo_state) @ '' -'') #
            (if select_ok optimized_env demo_state
             then [(''psconvert'', build_arg_string optimized_env (psconvert_defaults
                     (decorated optimized_env
                     (Map.empty(''prefix'' \<mapsto> PStr (fst (splitext ''map.png'')),
                         ''fmt'' \<mapsto> PStr (if False then upper ''g'' else ''g''),
                         ''crop'' \<mapsto> PBool True,
                         ''portrait'' \<mapsto> PBool (''sideways'' = ''portrait''))))))]
             else [])"
    by blast
  then have "calls (snd (savefig optimized_env ''map.png'' ''sideways'' False True Map.empty
                demo_state)) =
       [(''figure'', ''gmt-python-x -''), (''psconvert'', ''-A -Fmap -P -Tg'')]"
    by (simp add: optimized_select_ok x flag_args) (simp add: demo_state_def)
  with optimized_debug f show ?thesis by simp
qed

text \<open>
  Claim C5 at \<^verbatim>\<open>savefig("out/map.v2.pdf", orientation="landscape", dpi=300)\<close>.
\<close>

theorem savefig_table_prefix_passthrough_witness:
  "savefig_call (debug demo_env) ''out/map.v2.pdf'' ''landscape'' False True [''dpi'' \<mapsto> PInt 300] =
     Inr [''dpi'' \<mapsto> PInt 300, ''prefix'' \<mapsto> PStr ''out/map.v2'', ''fmt'' \<mapsto> PStr ''f'',
          ''crop'' \<mapsto> PBool True, ''portrait'' \<mapsto> PBool False]
   \<and> ext_of ''out/map.v2.pdf'' = ''pdf''
   \<and> savefig demo_env ''out/map.v2.pdf'' ''landscape'' False True [''dpi'' \<mapsto> PInt 300] demo_state =
       psconvert demo_env [''dpi'' \<mapsto> PInt 300, ''prefix'' \<mapsto> PStr ''out/map.v2'',
          ''fmt'' \<mapsto> PStr ''f'', ''crop'' \<mapsto> PBool True, ''portrait'' \<mapsto> PBool False] demo_state"
proof -
  have h: "savefig_call (debug demo_env) ''out/map.v2.pdf'' ''landscape'' False True [''dpi'' \<mapsto> PInt 300] =
     Inr [''dpi'' \<mapsto> PInt 300, ''prefix'' \<mapsto> PStr ''out/map.v2'', ''fmt'' \<mapsto> PStr ''f'',
          ''crop'' \<mapsto> PBool True, ''portrait'' \<mapsto> PBool False]"
    by (simp add: savefig_call_def py_assert_def fmts_def splitext_def rfind_def)
  have x: "ext_of ''out/map.v2.pdf'' = ''pdf''"
    by (simp add: ext_of_def splitext_def rfind_def)
  from savefig_table_prefix_passthrough [OF h, of demo_state] h x
  show ?thesis by blast
qed

text \<open>
  Claim C4 at the failing input: under \<^verbatim>\<open>python -O\<close>,
  \<^verbatim>\<open>savefig("map.pdf", transparent=True)\<close> makes both native calls, with the format
  \<^verbatim>\<open>F\<close>; and at \<^verbatim>\<open>map.png\<close> with assertions enabled, where the format is \<^verbatim>\<open>G\<close>.
\<close>

theorem savefig_transparent_format_witness:
  "\<not> debug optimized_env
   \<and> fmts (ext_of ''map.pdf'') = Some ''f''
   \<and> calls (snd (savefig optimized_env ''map.pdf'' ''portrait'' True True Map.empty demo_state)) =
       [(''figure'', ''gmt-python-x -''), (''psconvert'', ''-A -Fmap -P -TF'')]
   \<and> ext_of ''map.png'' = ''png''
   \<and> (\<exists>kw'. savefig_call (debug demo_env) ''map.png'' ''portrait'' True True Map.empty = Inr kw' \<and>
          kw' ''fmt'' = Some (PStr ''G''))"
proof -
  have x: "ext_of ''map.pdf'' = ''pdf''" "fst (splitext ''map.pdf'') = ''map''"
    by (simp_all add: ext_of_def splitext_def rfind_def)
  have a: "ext_of ''map.png'' = ''png''"
    by (simp add: ext_of_def splitext_def rfind_def)
  have f: "fmts (ext_of ''map.pdf'') = Some ''f''" by (simp add: x fmts_def)
  have h: "\<not> debug optimized_env \<and> fmts (ext_of ''map.pdf'') = Some ''f'' \<and>
       Map.empty ''prefix'' = None \<and> Map.empty ''fmt'' = None \<and> Map.empty ''portrait'' = None"
    using optimized_debug f by simp
  from savefig_transparent_format [where e = optimized_env and fname = "''map.pdf''"
      and code = "''f''" and kw = Map.empty and orientation = "''portrait''"
      and crop = True and s = demo_state] h
  have "calls (snd (savefig optimized_env ''map.pdf'' ''portrait'' True True Map.empty demo_state)) =
          calls demo_state @ (''figure'', name (self demo_state) @ '' -'') #
            (if select_ok optimized_env demo_state
             then [(''psconvert'', build_arg_string optimized_env (psconvert_defaults
                     (decorated optimized_env
                     (Map.empty(''prefix'' \<mapsto> PStr (fst (splitext ''map.pdf'')),
                         ''fmt'' \<mapsto> PStr (upper ''f''),
                         ''crop'' \<mapsto> PBool True,
                         ''portrait'' \<mapsto> PBool (''portrait'' = ''portrait''))))))]
             else [])"
    by blast
  then have c: "calls (snd (savefig optimized_env ''map.pdf'' ''portrait'' True True Map.empty
                demo_state)) =
       [(''figure'', ''gmt-python-x -''), (''psconvert'', ''-A -Fmap -P -TF'')]"
    by (simp add: optimized_select_ok x upper_f flag_args) (simp add: demo_state_def)
  from savefig_transparent_format [where e = demo_env and fname = "''map.png''"
      and kw = Map.empty and orientation = "''portrait''" and crop = True and s = demo_state] a
  have g: "\<exists>kw'. savefig_call (debug demo_env) ''map.png'' ''portrait'' True True Map.empty = Inr kw' \<and>
          kw' ''fmt'' = Some (PStr ''G'')"
    by auto
  from optimized_debug f c a g show ?thesis by blast
qed

lemma demo_select_ok: "select_ok demo_env demo_state"
  by (simp add: select_ok_def demo_env_def)

lemma demo_decorated:
  "decorated demo_env [''prefix'' \<mapsto> PStr ''map'', ''fmt'' \<mapsto> PStr ''g''] =
     [''F'' \<mapsto> PStr ''map'', ''T'' \<mapsto> PStr ''g'']"
  by (rule ext) (simp add: decorated_def demo_env_def demo_use_alias_def psconvert_aliases_def)

text \<open>
  Claim C2 at \<^verbatim>\<open>psconvert(prefix="map", fmt="g")\<close>.
\<close>

theorem psconvert_selects_figure_first_witness:
  "calls (snd (psconvert demo_env [''prefix'' \<mapsto> PStr ''map'', ''fmt'' \<mapsto> PStr ''g''] demo_state)) =
     [(''figure'', ''gmt-python-x -''), (''psconvert'', ''map.png'')]"
  using psconvert_selects_figure_first [of demo_env "[''prefix'' \<mapsto> PStr ''map'', ''fmt'' \<mapsto> PStr ''g'']" demo_state]
  by (simp add: demo_select_ok demo_decorated psconvert_defaults_def)
     (simp add: demo_env_def demo_state_def)

lemma flag_env_facts:
  "kwargs_to_strings flag_env = remove_bools" "select_ok flag_env demo_state"
  by (simp_all add: flag_env_def demo_env_def select_ok_def)

text \<open>
  Claim C6 at the failing input: \<^verbatim>\<open>psconvert(A=False, P=False)\<close> makes the native call
  with the argument string \<^verbatim>\<open>-A -P\<close>, the same as \<^verbatim>\<open>psconvert()\<close>.
\<close>

theorem psconvert_defaults_replace_false_witness:
  "kwargs_to_strings flag_env = remove_bools
   \<and> use_alias flag_env psconvert_aliases [''A'' \<mapsto> PBool False, ''P'' \<mapsto> PBool False] ''A'' =
       Some (PBool False)
   \<and> use_alias flag_env psconvert_aliases [''A'' \<mapsto> PBool False, ''P'' \<mapsto> PBool False] ''P'' =
       Some (PBool False)
   \<and> psconvert_defaults (decorated flag_env [''A'' \<mapsto> PBool False, ''P'' \<mapsto> PBool False]) ''A'' =
       Some (PStr [])
   \<and> psconvert_defaults (decorated flag_env [''A'' \<mapsto> PBool False, ''P'' \<mapsto> PBool False]) ''P'' =
       Some (PStr [])
   \<and> calls (snd (psconvert flag_env [''A'' \<mapsto> PBool False, ''P'' \<mapsto> PBool False] demo_state)) =
       [(''figure'', ''gmt-python-x -''), (''psconvert'', ''-A -P'')]
   \<and> calls (snd (psconvert flag_env Map.empty demo_state)) =
       [(''figure'', ''gmt-python-x -''), (''psconvert'', ''-A -P'')]"
proof -
  let ?kw = "[''A'' \<mapsto> PBool False, ''P'' \<mapsto> PBool False]"
  have ua: "use_alias flag_env psconvert_aliases ?kw ''A'' = Some (PBool False)"
    and up: "use_alias flag_env psconvert_aliases ?kw ''P'' = Some (PBool False)"
    by (simp_all add: flag_env_def demo_env_def demo_use_alias_def psconvert_aliases_def)
  note ta = psconvert_defaults_replace_false [OF flag_env_facts(1), of "''A''" ?kw demo_state]
  note tp = psconvert_defaults_replace_false [OF flag_env_facts(1), of "''P''" ?kw demo_state]
  from ta ua have a: "psconvert_defaults (decorated flag_env ?kw) ''A'' = Some (PStr [])" by simp
  from tp up have p: "psconvert_defaults (decorated flag_env ?kw) ''P'' = Some (PStr [])" by simp
  have o: "psconvert_defaults (decorated flag_env ?kw) k = None" if "k \<noteq> ''A''" "k \<noteq> ''P''" for k
    using that
    by (simp add: psconvert_defaults_def decorated_def flag_env_def demo_env_def
        demo_use_alias_def psconvert_aliases_def remove_bools_def Let_def)
  have bs: "build_arg_string flag_env (psconvert_defaults (decorated flag_env ?kw)) = ''-A -P''"
    using a p o [of "''F''"] o [of "''T''"]
    by (simp add: flag_env_def demo_arg_string_def show_flag_def)
  from ta have "calls (snd (psconvert flag_env ?kw demo_state)) =
         calls demo_state @ (''figure'', name (self demo_state) @ '' -'') #
           (if select_ok flag_env demo_state
            then [(''psconvert'', build_arg_string flag_env (psconvert_defaults (decorated flag_env ?kw)))]
            else [])"
    by simp
  then have c: "calls (snd (psconvert flag_env ?kw demo_state)) =
       [(''figure'', ''gmt-python-x -''), (''psconvert'', ''-A -P'')]"
    by (simp add: flag_env_facts bs) (simp add: demo_state_def)
  have be: "build_arg_string flag_env (psconvert_defaults (decorated flag_env Map.empty)) = ''-A -P''"
    by (simp add: psconvert_defaults_def decorated_def flag_env_def demo_env_def
        demo_use_alias_def psconvert_aliases_def remove_bools_def Let_def
        demo_arg_string_def show_flag_def)
  from psconvert_defaults_replace_false [OF flag_env_facts(1), of "''A''" Map.empty demo_state]
  have "calls (snd (psconvert flag_env Map.empty demo_state)) =
         calls demo_state @ (''figure'', name (self demo_state) @ '' -'') #
           (if select_ok flag_env demo_state
            then [(''psconvert'', build_arg_string flag_env
                    (psconvert_defaults (decorated flag_env Map.empty)))]
            else [])"
    by simp
  then have d: "calls (snd (psconvert flag_env Map.empty demo_state)) =
       [(''figure'', ''gmt-python-x -''), (''psconvert'', ''-A -P'')]"
    by (simp add: flag_env_facts be) (simp add: demo_state_def)
  from flag_env_facts(1) ua up a p c d show ?thesis by blast
qed


lemma path_join_stem:
  assumes "n \<noteq> []" "CHR ''/'' \<notin> set n"
  shows "path_join d (n @ x) = (if d = [] \<or> last d = CHR ''/'' then d else d @ ''/'') @ n @ x"
proof -
  from assms have "hd (n @ x) \<noteq> CHR ''/''" by (cases n) auto
  with assms(1) show ?thesis by (simp add: path_join_def)
qed

lemma preview_fname_split:
  assumes n: "CHR ''/'' \<notin> set (name f)" "list_ex (\<lambda>c. c \<noteq> CHR ''.'') (name f)"
    and x: "CHR ''.'' \<notin> set fmt" "CHR ''/'' \<notin> set fmt"
  shows "splitext (preview_fname f fmt) = (path_join (preview_dir f) (name f), CHR ''.'' # fmt)"
proof -
  define q where "q = (if preview_dir f = [] \<or> last (preview_dir f) = CHR ''/''
                       then preview_dir f else preview_dir f @ ''/'')"
  have ne: "name f \<noteq> []" using n(2) by auto
  have q: "q = [] \<or> last q = CHR ''/''" by (simp add: q_def)
  have a: "preview_fname f fmt = q @ name f @ CHR ''.'' # fmt"
    using path_join_stem [OF ne n(1), of "preview_dir f" "''.'' @ fmt"]
    by (simp add: preview_fname_def q_def)
  have b: "path_join (preview_dir f) (name f) = q @ name f"
    using path_join_stem [OF ne n(1), of "preview_dir f" "[]"] by (simp add: q_def)
  show ?thesis unfolding a b by (rule splitext_stem [OF q n x])
qed

lemma fmts_plain: "fmts x = Some c \<Longrightarrow> CHR ''.'' \<notin> set x \<and> CHR ''/'' \<notin> set x"
  by (auto simp: fmts_dom)

lemma savefig_args_keys:
  "savefig_args dpi aa ''prefix'' = None \<and> savefig_args dpi aa ''fmt'' = None \<and>
   savefig_args dpi aa ''portrait'' = None"
  by (simp add: savefig_args_def Let_def)

lemma preview_savefig_call:
  assumes n: "CHR ''/'' \<notin> set (name f)" "list_ex (\<lambda>c. c \<noteq> CHR ''.'') (name f)"
    and c: "fmts fmt = Some code"
  shows "savefig_call dbg (preview_fname f fmt) ''portrait'' False True (savefig_args dpi aa) =
           Inr ((savefig_args dpi aa)
                  (''prefix'' \<mapsto> PStr (path_join (preview_dir f) (name f)),
                   ''fmt'' \<mapsto> PStr code, ''crop'' \<mapsto> PBool True, ''portrait'' \<mapsto> PBool True))"
proof -
  from fmts_plain [OF c] have x: "CHR ''.'' \<notin> set fmt" "CHR ''/'' \<notin> set fmt" by simp_all
  have sp: "splitext (preview_fname f fmt) = (path_join (preview_dir f) (name f), CHR ''.'' # fmt)"
    by (rule preview_fname_split [OF n x])
  then have e: "ext_of (preview_fname f fmt) = fmt" by (simp add: ext_of_def)
  have "savefig_call dbg (preview_fname f fmt) ''portrait'' False True (savefig_args dpi aa) =
           Inr ((savefig_args dpi aa)
                  (''prefix'' \<mapsto> PStr (fst (splitext (preview_fname f fmt))),
                   ''fmt'' \<mapsto> PStr (if False then upper code else code),
                   ''crop'' \<mapsto> PBool True,
                   ''portrait'' \<mapsto> PBool (''portrait'' = ''portrait'')))"
    using savefig_args_keys [of dpi aa] c
    by (intro savefig_call_ok) (simp_all add: e)
  then show ?thesis by (simp add: sp)
qed

lemma preview_calls:
  assumes n: "CHR ''/'' \<notin> set (name (self s))" "list_ex (\<lambda>c. c \<noteq> CHR ''.'') (name (self s))"
    and c: "fmts fmt = Some code"
  shows "calls (snd (preview e fmt dpi aa ab s)) =
     calls s @ select_call s #
       (if select_ok e s
        then [(''psconvert'', build_arg_string e (psconvert_defaults (decorated e
                ((savefig_args dpi aa)
                  (''prefix'' \<mapsto> PStr (path_join (preview_dir (self s)) (name (self s))),
                   ''fmt'' \<mapsto> PStr code, ''crop'' \<mapsto> PBool True,
                   ''portrait'' \<mapsto> PBool True)))))]
        else [])"
  unfolding preview_state
  by (rule savefig_calls_Inr [OF preview_savefig_call [OF n c]])

lemma preview_name:
  "preview e fmt dpi aa False s = (Inr r, s') \<Longrightarrow> r = PreviewName (preview_fname (self s) fmt)"
  by (cases "savefig e (preview_fname (self s) fmt) ''portrait'' False True (savefig_args dpi aa) s")
     (auto simp: preview_def Let_def split: sum.splits)

lemma preview_bytes:
  assumes "preview e fmt dpi aa True s = (Inr r, s')"
  shows "\<exists>b. r = PreviewBytes b \<and> fs s' (preview_fname (self s) fmt) = Some (File b)"
proof -
  obtain r1 s1 where sv:
    "savefig e (preview_fname (self s) fmt) ''portrait'' False True (savefig_args dpi aa) s = (r1, s1)"
    by (cases "savefig e (preview_fname (self s) fmt) ''portrait'' False True (savefig_args dpi aa) s")
  show ?thesis using assms sv
    by (auto simp: preview_def Let_def read_bytes_def split: sum.splits option.splits node.splits)
qed

lemma tmp_create_free:
  assumes "0 < k" and "fs s (path_join dir (pre @ candidates e (drawn s))) = None"
  shows "tmp_create e k dir pre nd s =
           (Inr (path_join dir (pre @ candidates e (drawn s))),
            s\<lparr>drawn := Suc (drawn s),
              fs := (fs s)(path_join dir (pre @ candidates e (drawn s)) \<mapsto> nd)\<rparr>)"
  using assms by (cases k) (simp_all add: Let_def)

lemma unique_name_free:
  assumes "0 < tmp_max e"
    and "fs s (path_join ''.'' (''gmt-python-'' @ candidates e (drawn s))) = None"
  shows "unique_name e s =
           (Inr (split_tail (path_join ''.'' (''gmt-python-'' @ candidates e (drawn s)))),
            s\<lparr>drawn := Suc (drawn s)\<rparr>)"
proof -
  let ?p = "path_join ''.'' (''gmt-python-'' @ candidates e (drawn s))"
  have "((fs s)(?p \<mapsto> File []))(?p := None) = fs s"
    using assms(2) by (auto simp: fun_eq_iff)
  then show ?thesis
    by (simp add: unique_name_def NamedTemporaryFile_def tmpfile_close_def
        tmp_create_free [OF assms] Let_def)
qed

text \<open>
  Claim C7. \<^verbatim>\<open>unique_name\<close> deletes the temporary file before it returns: when the
  first candidate is free the call returns its name and leaves the file system as it
  found it. The name is therefore not reserved, and in every later state in which the
  random source of \<^verbatim>\<open>tempfile\<close> draws the same candidate while no such file exists, the
  call returns the same name again. So the property claimed, that a name is never reused,
  does not hold of the code.
\<close>

theorem unique_name_reissues_name:
  assumes "0 < tmp_max e"
    and "fs s (path_join ''.'' (''gmt-python-'' @ candidates e (drawn s))) = None"
  shows "unique_name e s =
           (Inr (split_tail (path_join ''.'' (''gmt-python-'' @ candidates e (drawn s)))),
            s\<lparr>drawn := Suc (drawn s)\<rparr>)
     \<and> (\<forall>t. candidates e (drawn t) = candidates e (drawn s) \<and>
              fs t (path_join ''.'' (''gmt-python-'' @ candidates e (drawn s))) = None \<longrightarrow>
              fst (unique_name e t) = fst (unique_name e s))"
proof (intro conjI allI impI)
  show "unique_name e s =
           (Inr (split_tail (path_join ''.'' (''gmt-python-'' @ candidates e (drawn s)))),
            s\<lparr>drawn := Suc (drawn s)\<rparr>)"
    by (rule unique_name_free [OF assms])
next
  fix t :: "'a state"
  assume h: "candidates e (drawn t) = candidates e (drawn s) \<and>
              fs t (path_join ''.'' (''gmt-python-'' @ candidates e (drawn s))) = None"
  then have "fs t (path_join ''.'' (''gmt-python-'' @ candidates e (drawn t))) = None" by simp
  from unique_name_free [OF assms(1) this] unique_name_free [OF assms] h
  show "fst (unique_name e t) = fst (unique_name e s)" by simp
qed

lemma launch_eq:
  assumes "(take 5 (platform e) = ''linux'' \<and> cmd = ''xdg-open'')
           \<or> (platform e = ''darwin'' \<and> cmd = ''open'')"
  shows "launch_external_viewer e fname s =
          (case run_child e [cmd, fname] of
             None \<Rightarrow> (Inl (FileNotFoundError cmd), s)
           | Some rc \<Rightarrow>
               (Inr (), s\<lparr>events := events s @
                          [Spawn [cmd, fname] DEVNULL DEVNULL, Wait [cmd, fname] rc]\<rparr>))"
  using assms
  by (auto simp: launch_external_viewer_def subprocess_run_def Let_def split: option.splits)

text \<open>
  Claim C3, amended. On Linux (\<^verbatim>\<open>xdg-open\<close>) and on macOS (\<^verbatim>\<open>open\<close>)
  \<^verbatim>\<open>launch_external_viewer\<close> starts the launcher command with both output streams sent to
  the null device and waits until that command has exited; its exit status is collected
  and ignored, so the call returns normally for every status, and it raises only when the
  command cannot be started. \<^verbatim>\<open>show\<close> with \<^verbatim>\<open>external=True\<close> does exactly this with the
  file name of the PDF preview, and then returns no value.
\<close>

theorem launch_external_viewer_runs_and_waits:
  assumes "(take 5 (platform e) = ''linux'' \<and> cmd = ''xdg-open'')
           \<or> (platform e = ''darwin'' \<and> cmd = ''open'')"
  shows "launch_external_viewer e fname s =
          (case run_child e [cmd, fname] of
             None \<Rightarrow> (Inl (FileNotFoundError cmd), s)
           | Some rc \<Rightarrow>
               (Inr (), s\<lparr>events := events s @
                          [Spawn [cmd, fname] DEVNULL DEVNULL, Wait [cmd, fname] rc]\<rparr>))
    \<and> (\<forall>f s1. preview e ''pdf'' 600 False False s = (Inr (PreviewName f), s1) \<longrightarrow>
         show_fig e dpi wd True s =
          (case run_child e [cmd, f] of
             None \<Rightarrow> (Inl (FileNotFoundError cmd), s1)
           | Some rc \<Rightarrow>
               (Inr NoValue, s1\<lparr>events := events s1 @
                          [Spawn [cmd, f] DEVNULL DEVNULL, Wait [cmd, f] rc]\<rparr>)))"
proof (intro conjI allI impI)
  show "launch_external_viewer e fname s =
          (case run_child e [cmd, fname] of
             None \<Rightarrow> (Inl (FileNotFoundError cmd), s)
           | Some rc \<Rightarrow>
               (Inr (), s\<lparr>events := events s @
                          [Spawn [cmd, fname] DEVNULL DEVNULL, Wait [cmd, fname] rc]\<rparr>))"
    by (rule launch_eq [OF assms])
next
  fix f s1
  assume "preview e ''pdf'' 600 False False s = (Inr (PreviewName f), s1)"
  then show "show_fig e dpi wd True s =
          (case run_child e [cmd, f] of
             None \<Rightarrow> (Inl (FileNotFoundError cmd), s1)
           | Some rc \<Rightarrow>
               (Inr NoValue, s1\<lparr>events := events s1 @
                          [Spawn [cmd, f] DEVNULL DEVNULL, Wait [cmd, f] rc]\<rparr>))"
    by (simp add: show_fig_def preview_value_def launch_eq [OF assms] split: option.splits)
qed

text \<open>
  Claim C3 as stated says that the child \<^verbatim>\<open>xdg-open\<close> is not waited on. On Linux
  the function starts it with \<^verbatim>\<open>subprocess.run\<close>, which blocks until the child has exited:
  the event log holds the wait.
\<close>

theorem launch_external_viewer_waits_counterexample:
  "Wait [''xdg-open'', ''/tmp/p.pdf''] 3
     \<in> set (events (snd (launch_external_viewer demo_env ''/tmp/p.pdf'' demo_state)))"
  by (simp add: launch_external_viewer_def subprocess_run_def demo_env_def demo_state_def)

lemma call_module_fs: "fs (snd (call_module e m a s)) = native_fs e m a s"
  by (simp add: call_module_eq native_fs_def)

lemma psconvert_state:
  "snd (psconvert e kw s) =
     (if select_ok e s
      then snd (call_module e ''psconvert'' (build_arg_string e (psconvert_defaults (decorated e kw)))
                  (snd (figure e (name (self s)) s)))
      else snd (figure e (name (self s)) s))"
  by (simp add: psconvert_def psconvert_body_def preprocess_def figure_eq call_module_eq
      select_ok_def)

lemma preview_native_state:
  assumes n: "CHR ''/'' \<notin> set (name (self s))" "list_ex (\<lambda>c. c \<noteq> CHR ''.'') (name (self s))"
    and c: "fmts fmt = Some code"
  shows "snd (preview e fmt dpi aa ab s) =
     (if select_ok e s
      then snd (call_module e ''psconvert''
                  (build_arg_string e (psconvert_defaults (decorated e
                     ((savefig_args dpi aa)
                        (''prefix'' \<mapsto> PStr (path_join (preview_dir (self s)) (name (self s))),
                         ''fmt'' \<mapsto> PStr code, ''crop'' \<mapsto> PBool True,
                         ''portrait'' \<mapsto> PBool True)))))
                  (snd (figure e (name (self s)) s)))
      else snd (figure e (name (self s)) s))"
  unfolding preview_state
  using preview_savefig_call [OF n c, of "debug e" dpi aa]
  by (simp add: savefig_def psconvert_state)

text \<open>
  Claim C8. For the formats \<^verbatim>\<open>png\<close> and \<^verbatim>\<open>pdf\<close> and a figure name without a slash
  that is not made of dots only, a preview works on the path
  \<^verbatim>\<open>join(preview_dir, name + "." + fmt)\<close>, which depends on the figure and the format
  alone: it is the file name returned, the file whose content is returned, and the native
  conversion is given this path without the extension as its prefix together with the
  code of the format. A preview leaves the attributes of the figure as they were, so a
  later preview of the same format returns the same path. The file system after a
  preview is the one its own conversion call leaves: after the later of two previews it
  is what the later conversion, given the same prefix and format, has written, so the
  file that conversion writes at the path is the file found there, whatever the earlier
  preview left, and the content the later preview returns is the content found at the
  path then.
\<close>

theorem preview_path_deterministic:
  assumes "fmt = ''png'' \<or> fmt = ''pdf''"
    and "CHR ''/'' \<notin> set (name (self s))"
    and "list_ex (\<lambda>c. c \<noteq> CHR ''.'') (name (self s))"
  shows "(\<forall>r s'. preview e fmt dpi aa False s = (Inr r, s') \<longrightarrow>
           r = PreviewName (path_join (preview_dir (self s)) (name (self s) @ ''.'' @ fmt)))
    \<and> (\<forall>r s'. preview e fmt dpi aa True s = (Inr r, s') \<longrightarrow>
           (\<exists>b. r = PreviewBytes b \<and>
                fs s' (path_join (preview_dir (self s)) (name (self s) @ ''.'' @ fmt)) = Some (File b)))
    \<and> (calls (snd (preview e fmt dpi aa ab s)) =
           calls s @ (''figure'', name (self s) @ '' -'') #
             (if select_ok e s
              then [(''psconvert'', build_arg_string e (psconvert_defaults (decorated e
                      ((savefig_args dpi aa)
                        (''prefix'' \<mapsto> PStr (path_join (preview_dir (self s)) (name (self s))),
                         ''fmt'' \<mapsto> PStr (if fmt = ''png'' then ''g'' else ''f''),
                         ''crop'' \<mapsto> PBool True, ''portrait'' \<mapsto> PBool True)))))]
              else []))
    \<and> (self (snd (preview e fmt dpi aa ab s)) = self s)
    \<and> (preview_dir (self s) \<noteq> [] \<and> last (preview_dir (self s)) \<noteq> CHR ''/'' \<longrightarrow>
           path_join (preview_dir (self s)) (name (self s) @ ''.'' @ fmt) =
             preview_dir (self s) @ ''/'' @ name (self s) @ ''.'' @ fmt)
    \<and> (\<forall>r1 s1 r2 s2. preview e fmt dpi aa ab s = (r1, s1) \<longrightarrow>
           preview e fmt dpi' aa' False s1 = (Inr r2, s2) \<longrightarrow>
           r2 = PreviewName (path_join (preview_dir (self s)) (name (self s) @ ''.'' @ fmt)))
    \<and> (\<forall>r1 s1 r2 s2. preview e fmt dpi aa ab s = (r1, s1) \<longrightarrow>
           preview e fmt dpi' aa' True s1 = (Inr r2, s2) \<longrightarrow>
           (\<exists>b. r2 = PreviewBytes b \<and>
                fs s2 (path_join (preview_dir (self s)) (name (self s) @ ''.'' @ fmt)) = Some (File b)))
    \<and> (select_ok e s \<longrightarrow>
           fs (snd (preview e fmt dpi aa ab s)) =
             native_fs e ''psconvert''
               (build_arg_string e (psconvert_defaults (decorated e
                  ((savefig_args dpi aa)
                     (''prefix'' \<mapsto> PStr (path_join (preview_dir (self s)) (name (self s))),
                      ''fmt'' \<mapsto> PStr (if fmt = ''png'' then ''g'' else ''f''),
                      ''crop'' \<mapsto> PBool True, ''portrait'' \<mapsto> PBool True)))))
               (snd (figure e (name (self s)) s)))
    \<and> (select_ok e (snd (preview e fmt dpi aa ab s)) \<longrightarrow>
           fs (snd (preview e fmt dpi' aa' ab' (snd (preview e fmt dpi aa ab s)))) =
             native_fs e ''psconvert''
               (build_arg_string e (psconvert_defaults (decorated e
                  ((savefig_args dpi' aa')
                     (''prefix'' \<mapsto> PStr (path_join (preview_dir (self s)) (name (self s))),
                      ''fmt'' \<mapsto> PStr (if fmt = ''png'' then ''g'' else ''f''),
                      ''crop'' \<mapsto> PBool True, ''portrait'' \<mapsto> PBool True)))))
               (snd (figure e (name (self s)) (snd (preview e fmt dpi aa ab s)))))
    \<and> (\<forall>c. select_ok e (snd (preview e fmt dpi aa ab s)) \<and>
           native_fs e ''psconvert''
               (build_arg_string e (psconvert_defaults (decorated e
                  ((savefig_args dpi' aa')
                     (''prefix'' \<mapsto> PStr (path_join (preview_dir (self s)) (name (self s))),
                      ''fmt'' \<mapsto> PStr (if fmt = ''png'' then ''g'' else ''f''),
                      ''crop'' \<mapsto> PBool True, ''portrait'' \<mapsto> PBool True)))))
               (snd (figure e (name (self s)) (snd (preview e fmt dpi aa ab s))))
               (path_join (preview_dir (self s)) (name (self s) @ ''.'' @ fmt)) = Some (File c) \<longrightarrow>
           fs (snd (preview e fmt dpi' aa' ab' (snd (preview e fmt dpi aa ab s))))
              (path_join (preview_dir (self s)) (name (self s) @ ''.'' @ fmt)) = Some (File c))"
proof -
  have c1: "\<forall>r s'. preview e fmt dpi aa False s = (Inr r, s') \<longrightarrow>
           r = PreviewName (path_join (preview_dir (self s)) (name (self s) @ ''.'' @ fmt))"
    using preview_name [of e fmt dpi aa s] by (simp add: preview_fname_def)
  have c2: "\<forall>r s'. preview e fmt dpi aa True s = (Inr r, s') \<longrightarrow>
           (\<exists>b. r = PreviewBytes b \<and>
                fs s' (path_join (preview_dir (self s)) (name (self s) @ ''.'' @ fmt)) = Some (File b))"
    using preview_bytes [of e fmt dpi aa s] by (simp add: preview_fname_def)
  have c: "fmts fmt = Some (if fmt = ''png'' then ''g'' else ''f'')"
    using assms(1) by (auto simp: fmts_dom)
  have c3: "calls (snd (preview e fmt dpi aa ab s)) =
           calls s @ (''figure'', name (self s) @ '' -'') #
             (if select_ok e s
              then [(''psconvert'', build_arg_string e (psconvert_defaults (decorated e
                      ((savefig_args dpi aa)
                        (''prefix'' \<mapsto> PStr (path_join (preview_dir (self s)) (name (self s))),
                         ''fmt'' \<mapsto> PStr (if fmt = ''png'' then ''g'' else ''f''),
                         ''crop'' \<mapsto> PBool True, ''portrait'' \<mapsto> PBool True)))))]
              else [])"
    using preview_calls [OF assms(2,3) c, of e dpi aa ab] by (simp add: select_call_def)
  have c4: "self (snd (preview e fmt dpi aa ab s)) = self s" by (rule preview_self)
  have ne: "name (self s) \<noteq> []" using assms(3) by auto
  have c5: "preview_dir (self s) \<noteq> [] \<and> last (preview_dir (self s)) \<noteq> CHR ''/'' \<longrightarrow>
           path_join (preview_dir (self s)) (name (self s) @ ''.'' @ fmt) =
             preview_dir (self s) @ ''/'' @ name (self s) @ ''.'' @ fmt"
    using path_join_stem [OF ne assms(2), of "preview_dir (self s)" "''.'' @ fmt"] by simp
  have c6: "\<forall>r1 s1 r2 s2. preview e fmt dpi aa ab s = (r1, s1) \<longrightarrow>
           preview e fmt dpi' aa' False s1 = (Inr r2, s2) \<longrightarrow>
           r2 = PreviewName (path_join (preview_dir (self s)) (name (self s) @ ''.'' @ fmt))"
  proof (intro allI impI)
    fix r1 s1 r2 s2
    assume p1: "preview e fmt dpi aa ab s = (r1, s1)"
      and p2: "preview e fmt dpi' aa' False s1 = (Inr r2, s2)"
    from p1 c4 have "self s1 = self s" by simp
    with preview_name [OF p2]
    show "r2 = PreviewName (path_join (preview_dir (self s)) (name (self s) @ ''.'' @ fmt))"
      by (simp add: preview_fname_def)
  qed
  have c7: "\<forall>r1 s1 r2 s2. preview e fmt dpi aa ab s = (r1, s1) \<longrightarrow>
           preview e fmt dpi' aa' True s1 = (Inr r2, s2) \<longrightarrow>
           (\<exists>b. r2 = PreviewBytes b \<and>
                fs s2 (path_join (preview_dir (self s)) (name (self s) @ ''.'' @ fmt)) = Some (File b))"
  proof (intro allI impI)
    fix r1 s1 r2 s2
    assume p1: "preview e fmt dpi aa ab s = (r1, s1)"
      and p2: "preview e fmt dpi' aa' True s1 = (Inr r2, s2)"
    from p1 c4 have "self s1 = self s" by simp
    with preview_bytes [OF p2]
    show "\<exists>b. r2 = PreviewBytes b \<and>
                fs s2 (path_join (preview_dir (self s)) (name (self s) @ ''.'' @ fmt)) = Some (File b)"
      by (simp add: preview_fname_def)
  qed
  have c8: "select_ok e s \<longrightarrow>
           fs (snd (preview e fmt dpi aa ab s)) =
             native_fs e ''psconvert''
               (build_arg_string e (psconvert_defaults (decorated e
                  ((savefig_args dpi aa)
                     (''prefix'' \<mapsto> PStr (path_join (preview_dir (self s)) (name (self s))),
                      ''fmt'' \<mapsto> PStr (if fmt = ''png'' then ''g'' else ''f''),
                      ''crop'' \<mapsto> PBool True, ''portrait'' \<mapsto> PBool True)))))
               (snd (figure e (name (self s)) s))"
    using preview_native_state [OF assms(2,3) c, of e dpi aa ab]
    by (simp add: call_module_fs)
  let ?s1 = "snd (preview e fmt dpi aa ab s)"
  have n1: "CHR ''/'' \<notin> set (name (self ?s1))" "list_ex (\<lambda>c. c \<noteq> CHR ''.'') (name (self ?s1))"
    using assms(2,3) by (simp_all add: c4)
  have c9: "select_ok e ?s1 \<longrightarrow>
           fs (snd (preview e fmt dpi' aa' ab' ?s1)) =
             native_fs e ''psconvert''
               (build_arg_string e (psconvert_defaults (decorated e
                  ((savefig_args dpi' aa')
                     (''prefix'' \<mapsto> PStr (path_join (preview_dir (self s)) (name (self s))),
                      ''fmt'' \<mapsto> PStr (if fmt = ''png'' then ''g'' else ''f''),
                      ''crop'' \<mapsto> PBool True, ''portrait'' \<mapsto> PBool True)))))
               (snd (figure e (name (self s)) ?s1))"
    using preview_native_state [OF n1 c, of e dpi' aa' ab']
    by (simp add: call_module_fs c4)
  have c10: "\<forall>c. select_ok e ?s1 \<and>
           native_fs e ''psconvert''
               (build_arg_string e (psconvert_defaults (decorated e
                  ((savefig_args dpi' aa')
                     (''prefix'' \<mapsto> PStr (path_join (preview_dir (self s)) (name (self s))),
                      ''fmt'' \<mapsto> PStr (if fmt = ''png'' then ''g'' else ''f''),
                      ''crop'' \<mapsto> PBool True, ''portrait'' \<mapsto> PBool True)))))
               (snd (figure e (name (self s)) ?s1))
               (path_join (preview_dir (self s)) (name (self s) @ ''.'' @ fmt)) = Some (File c) \<longrightarrow>
           fs (snd (preview e fmt dpi' aa' ab' ?s1))
              (path_join (preview_dir (self s)) (name (self s) @ ''.'' @ fmt)) = Some (File c)"
    using c9 by simp
  show ?thesis by (intro conjI) (fact c1 c2 c3 c4 c5 c6 c7 c8 c9 c10)+
qed

lemma show_external_result:
  "fst (show_fig e dpi wd True s) = Inr r \<Longrightarrow> r = NoValue"
  by (auto simp: show_fig_def split: prod.splits sum.splits)

lemma show_embedded_result:
  "fst (show_fig e dpi wd False s) = Inr r \<Longrightarrow> \<exists>b. r = ImageValue \<lparr>data = b, width = wd\<rparr>"
  by (auto simp: show_fig_def split: prod.splits sum.splits if_splits)

text \<open>
  Claim C10. \<^verbatim>\<open>show\<close> with \<^verbatim>\<open>external=True\<close> does not depend on \<^verbatim>\<open>dpi\<close> or
  \<^verbatim>\<open>width\<close>: the conversion is asked for with \<^verbatim>\<open>dpi=600\<close> and the format \<^verbatim>\<open>f\<close>, and
  the value returned is none. With \<^verbatim>\<open>external=False\<close> the conversion is asked for with
  the caller's \<^verbatim>\<open>dpi\<close>, the two anti-aliasing options and the format \<^verbatim>\<open>g\<close>, and the
  value returned is an image of the caller's width.
\<close>

theorem show_external_ignores_dpi:
  assumes "CHR ''/'' \<notin> set (name (self s))"
    and "list_ex (\<lambda>c. c \<noteq> CHR ''.'') (name (self s))"
  shows "(show_fig e dpi wd True s = show_fig e dpi' wd' True s)
    \<and> (calls (snd (show_fig e dpi wd True s)) =
           calls s @ (''figure'', name (self s) @ '' -'') #
             (if select_ok e s
              then [(''psconvert'', build_arg_string e (psconvert_defaults (decorated e
                      [''dpi'' \<mapsto> PInt 600,
                       ''prefix'' \<mapsto> PStr (path_join (preview_dir (self s)) (name (self s))),
                       ''fmt'' \<mapsto> PStr ''f'', ''crop'' \<mapsto> PBool True,
                       ''portrait'' \<mapsto> PBool True])))]
              else []))
    \<and> (\<forall>r. fst (show_fig e dpi wd True s) = Inr r \<longrightarrow> r = NoValue)
    \<and> (calls (snd (show_fig e dpi wd False s)) =
           calls s @ (''figure'', name (self s) @ '' -'') #
             (if select_ok e s
              then [(''psconvert'', build_arg_string e (psconvert_defaults (decorated e
                      [''dpi'' \<mapsto> PInt dpi, ''Qg'' \<mapsto> PInt 4, ''Qt'' \<mapsto> PInt 4,
                       ''prefix'' \<mapsto> PStr (path_join (preview_dir (self s)) (name (self s))),
                       ''fmt'' \<mapsto> PStr ''g'', ''crop'' \<mapsto> PBool True,
                       ''portrait'' \<mapsto> PBool True])))]
              else []))
    \<and> (\<forall>r. fst (show_fig e dpi wd False s) = Inr r \<longrightarrow>
           (\<exists>b. r = ImageValue \<lparr>data = b, width = wd\<rparr>))"
proof -
  have c1: "show_fig e dpi wd True s = show_fig e dpi' wd' True s"
    by (simp add: show_fig_def)
  have f: "fmts ''pdf'' = Some ''f''" and g: "fmts ''png'' = Some ''g''"
    by (simp_all add: fmts_def)
  have c2: "calls (snd (show_fig e dpi wd True s)) =
           calls s @ (''figure'', name (self s) @ '' -'') #
             (if select_ok e s
              then [(''psconvert'', build_arg_string e (psconvert_defaults (decorated e
                      [''dpi'' \<mapsto> PInt 600,
                       ''prefix'' \<mapsto> PStr (path_join (preview_dir (self s)) (name (self s))),
                       ''fmt'' \<mapsto> PStr ''f'', ''crop'' \<mapsto> PBool True,
                       ''portrait'' \<mapsto> PBool True])))]
              else [])"
    using preview_calls [OF assms f, of e 600 False False]
    by (simp add: show_external_state select_call_def savefig_args_def)
  have c3: "\<forall>r. fst (show_fig e dpi wd True s) = Inr r \<longrightarrow> r = NoValue"
    using show_external_result [of e dpi wd s] by blast
  have c4: "calls (snd (show_fig e dpi wd False s)) =
           calls s @ (''figure'', name (self s) @ '' -'') #
             (if select_ok e s
              then [(''psconvert'', build_arg_string e (psconvert_defaults (decorated e
                      [''dpi'' \<mapsto> PInt dpi, ''Qg'' \<mapsto> PInt 4, ''Qt'' \<mapsto> PInt 4,
                       ''prefix'' \<mapsto> PStr (path_join (preview_dir (self s)) (name (self s))),
                       ''fmt'' \<mapsto> PStr ''g'', ''crop'' \<mapsto> PBool True,
                       ''portrait'' \<mapsto> PBool True])))]
              else [])"
    using preview_calls [OF assms g, of e dpi True True]
    by (simp add: show_embedded_state select_call_def savefig_args_def)
  have c5: "\<forall>r. fst (show_fig e dpi wd False s) = Inr r \<longrightarrow>
           (\<exists>b. r = ImageValue \<lparr>data = b, width = wd\<rparr>)"
    using show_embedded_result [of e dpi wd s] by blast
  show ?thesis by (intro conjI) (fact c1 c2 c3 c4 c5)+
qed

lemma repeat_init:
  "Figure_init repeat_env demo_state =
     (Inr (), demo_state\<lparr>self := \<lparr>name = ''gmt-python-a'', preview_dir = ''/tmp/gmt-python-a-preview-aa''\<rparr>,
        fs := [''/tmp/gmt-python-a-preview-aa'' \<mapsto> Dir], drawn := 2\<rparr>)"
  by (simp add: Figure_init_def unique_name_def NamedTemporaryFile_def TemporaryDirectory_def
      tmpfile_close_def tmp_create_free repeat_env_def demo_env_def demo_state_def
      path_join_def split_tail_def rfind_def Let_def)

lemma repeat_init_again:
  "Figure_init repeat_env
     (demo_state\<lparr>self := \<lparr>name = ''gmt-python-a'', preview_dir = ''/tmp/gmt-python-a-preview-aa''\<rparr>,
        fs := [''/tmp/gmt-python-a-preview-aa'' \<mapsto> Dir], drawn := 2\<rparr>) =
     (Inr (), demo_state\<lparr>self := \<lparr>name = ''gmt-python-a'',
                                  preview_dir = ''/tmp/gmt-python-a-preview-aaaa''\<rparr>,
        fs := [''/tmp/gmt-python-a-preview-aa'' \<mapsto> Dir, ''/tmp/gmt-python-a-preview-aaaa'' \<mapsto> Dir],
        drawn := 4\<rparr>)"
  by (simp add: Figure_init_def unique_name_def NamedTemporaryFile_def TemporaryDirectory_def
      tmpfile_close_def tmp_create_free repeat_env_def demo_env_def demo_state_def
      path_join_def split_tail_def rfind_def Let_def numeral_2_eq_2 numeral_3_eq_3)

text \<open>
  Claim C7 at the failing input: with the candidates \<^verbatim>\<open>a\<close>, \<^verbatim>\<open>aa\<close>, \<^verbatim>\<open>a\<close>, \<^verbatim>\<open>aaaa\<close>
  two constructions of \<^verbatim>\<open>Figure\<close> in a row both succeed and both figures are named
  \<^verbatim>\<open>gmt-python-a\<close>.
\<close>

theorem unique_name_reissues_name_witness:
  "0 < tmp_max repeat_env
   \<and> fs demo_state (path_join ''.'' (''gmt-python-'' @ candidates repeat_env (drawn demo_state))) = None
   \<and> fst (Figure_init repeat_env demo_state) = Inr ()
   \<and> fst (Figure_init repeat_env (snd (Figure_init repeat_env demo_state))) = Inr ()
   \<and> name (self (snd (Figure_init repeat_env demo_state))) = ''gmt-python-a''
   \<and> name (self (snd (Figure_init repeat_env (snd (Figure_init repeat_env demo_state))))) =
       ''gmt-python-a''
   \<and> fst (unique_name repeat_env demo_state) = Inr ''gmt-python-a''
   \<and> fst (unique_name repeat_env (snd (Figure_init repeat_env demo_state))) = Inr ''gmt-python-a''"
proof -
  have m: "0 < tmp_max repeat_env" by (simp add: repeat_env_def demo_env_def)
  have f: "fs demo_state (path_join ''.'' (''gmt-python-'' @ candidates repeat_env (drawn demo_state)))
             = None"
    by (simp add: demo_state_def)
  note t = unique_name_reissues_name [OF m f]
  have n: "split_tail (path_join ''.'' (''gmt-python-'' @ candidates repeat_env (drawn demo_state))) =
             ''gmt-python-a''"
    by (simp add: repeat_env_def demo_env_def demo_state_def path_join_def split_tail_def rfind_def)
  from t n have u1: "fst (unique_name repeat_env demo_state) = Inr ''gmt-python-a''" by simp
  let ?s1 = "snd (Figure_init repeat_env demo_state)"
  have h: "candidates repeat_env (drawn ?s1) = candidates repeat_env (drawn demo_state) \<and>
           fs ?s1 (path_join ''.'' (''gmt-python-'' @ candidates repeat_env (drawn demo_state))) = None"
    by (simp add: repeat_init)
       (simp add: repeat_env_def demo_env_def demo_state_def path_join_def)
  from t h have "fst (unique_name repeat_env ?s1) = fst (unique_name repeat_env demo_state)"
    by blast
  with u1 have u2: "fst (unique_name repeat_env ?s1) = Inr ''gmt-python-a''" by simp
  have i1: "fst (Figure_init repeat_env demo_state) = Inr ()"
    and i2: "fst (Figure_init repeat_env ?s1) = Inr ()"
    and n1: "name (self ?s1) = ''gmt-python-a''"
    and n2: "name (self (snd (Figure_init repeat_env ?s1))) = ''gmt-python-a''"
    by (simp_all add: repeat_init repeat_init_again)
  from m f i1 i2 n1 n2 u1 u2 show ?thesis by blast
qed

text \<open>
  Claim C3, amended, on Linux with a launcher that exits with status 3.
\<close>

theorem launch_external_viewer_runs_and_waits_witness:
  "((take 5 (platform demo_env) = ''linux'' \<and> ''xdg-open'' = ''xdg-open'')
      \<or> (platform demo_env = ''darwin'' \<and> ''xdg-open'' = ''open''))
   \<and> launch_external_viewer demo_env ''/tmp/p.pdf'' demo_state =
       (Inr (), demo_state\<lparr>events :=
          [Spawn [''xdg-open'', ''/tmp/p.pdf''] DEVNULL DEVNULL,
           Wait [''xdg-open'', ''/tmp/p.pdf''] 3]\<rparr>)"
proof -
  have h: "(take 5 (platform demo_env) = ''linux'' \<and> ''xdg-open'' = ''xdg-open'')
      \<or> (platform demo_env = ''darwin'' \<and> ''xdg-open'' = ''open'')"
    by (simp add: demo_env_def)
  have r: "run_child demo_env [''xdg-open'', ''/tmp/p.pdf''] = Some 3"
    by (simp add: demo_env_def)
  from launch_external_viewer_runs_and_waits [OF h, of "''/tmp/p.pdf''" demo_state]
  have "launch_external_viewer demo_env ''/tmp/p.pdf'' demo_state =
       (Inr (), demo_state\<lparr>events := events demo_state @
          [Spawn [''xdg-open'', ''/tmp/p.pdf''] DEVNULL DEVNULL,
           Wait [''xdg-open'', ''/tmp/p.pdf''] 3]\<rparr>)"
    by (simp add: r)
  then have "launch_external_viewer demo_env ''/tmp/p.pdf'' demo_state =
       (Inr (), demo_state\<lparr>events :=
          [Spawn [''xdg-open'', ''/tmp/p.pdf''] DEVNULL DEVNULL,
           Wait [''xdg-open'', ''/tmp/p.pdf''] 3]\<rparr>)"
    by (simp add: demo_state_def)
  with h show ?thesis by blast
qed

lemma demo_name:
  "CHR ''/'' \<notin> set (name (self demo_state))"
  "list_ex (\<lambda>c. c \<noteq> CHR ''.'') (name (self demo_state))"
  by (simp_all add: demo_state_def)

lemma demo_preview_png:
  "preview demo_env ''png'' dpi True ab demo_state =
     ((if ab then Inr (PreviewBytes ''image'')
       else Inr (PreviewName ''/tmp/gmt-python-x-preview-y/gmt-python-x.png'')),
      demo_state\<lparr>calls := [(''figure'', ''gmt-python-x -''),
                             (''psconvert'', ''/tmp/gmt-python-x-preview-y/gmt-python-x.png'')],
                  fs := [''/tmp/gmt-python-x-preview-y/gmt-python-x.png'' \<mapsto> File ''image''],
                  gmt := 2\<rparr>)"
proof -
  have f: "fmts ''png'' = Some ''g''" by (simp add: fmts_def)
  have p: "preview_fname (self demo_state) ''png'' = ''/tmp/gmt-python-x-preview-y/gmt-python-x.png''"
    by (simp add: preview_fname_def path_join_def demo_state_def)
  have j: "path_join (preview_dir (self demo_state)) (name (self demo_state)) =
             ''/tmp/gmt-python-x-preview-y/gmt-python-x''"
    by (simp add: path_join_def demo_state_def)
  have d: "build_arg_string demo_env (psconvert_defaults (decorated demo_env
              ((savefig_args dpi True)
                 (''prefix'' \<mapsto> PStr ''/tmp/gmt-python-x-preview-y/gmt-python-x'',
                  ''fmt'' \<mapsto> PStr ''g'', ''crop'' \<mapsto> PBool True, ''portrait'' \<mapsto> PBool True)))) =
           ''/tmp/gmt-python-x-preview-y/gmt-python-x.png''"
    by (simp add: decorated_def demo_env_def demo_use_alias_def psconvert_aliases_def
        psconvert_defaults_def savefig_args_def Let_def)
  have sv: "savefig demo_env ''/tmp/gmt-python-x-preview-y/gmt-python-x.png'' ''portrait'' False True
              (savefig_args dpi True) demo_state =
            (Inr (), demo_state\<lparr>calls := [(''figure'', ''gmt-python-x -''),
                             (''psconvert'', ''/tmp/gmt-python-x-preview-y/gmt-python-x.png'')],
                  fs := [''/tmp/gmt-python-x-preview-y/gmt-python-x.png'' \<mapsto> File ''image''],
                  gmt := 2\<rparr>)"
    using preview_savefig_call [OF demo_name f, of "debug demo_env" dpi True]
    apply (simp add: p j savefig_def psconvert_def psconvert_body_def preprocess_def figure_eq
        call_module_eq d)
    apply (simp add: demo_env_def demo_state_def)
    done
  show ?thesis
    by (simp add: preview_def p sv read_bytes_def Let_def)
qed

lemma counting_select_ok: "select_ok counting_env s"
  by (simp add: select_ok_def counting_env_def)

lemma counting_args:
  "build_arg_string counting_env (psconvert_defaults (decorated counting_env
      ((savefig_args dpi aa)
         (''prefix'' \<mapsto> PStr p, ''fmt'' \<mapsto> PStr ''g'', ''crop'' \<mapsto> PBool True,
          ''portrait'' \<mapsto> PBool True)))) = p @ ''.png''"
  by (simp add: counting_env_def decorated_def demo_env_def demo_use_alias_def psconvert_aliases_def
      psconvert_defaults_def savefig_args_def Let_def)

lemma counting_native_fs:
  "native_fs counting_env ''psconvert'' a (snd (figure counting_env nm s)) =
     (fs s)(a \<mapsto> File (replicate (Suc (gmt s)) CHR ''#''))"
  by (simp add: native_fs_def figure_eq call_module_eq counting_env_def)

lemma counting_preview_bytes:
  assumes n: "CHR ''/'' \<notin> set (name (self s))" "list_ex (\<lambda>c. c \<noteq> CHR ''.'') (name (self s))"
    and "fs (snd (preview counting_env ''png'' dpi aa True s)) (preview_fname (self s) ''png'') =
             Some (File b)"
  shows "fst (preview counting_env ''png'' dpi aa True s) = Inr (PreviewBytes b)"
proof -
  have f: "fmts ''png'' = Some ''g''" by (simp add: fmts_def)
  obtain r s1 where sv:
    "savefig counting_env (preview_fname (self s) ''png'') ''portrait'' False True
       (savefig_args dpi aa) s = (r, s1)"
    by (cases "savefig counting_env (preview_fname (self s) ''png'') ''portrait'' False True
       (savefig_args dpi aa) s")
  have ok: "r = Inr ()"
    using sv preview_savefig_call [OF n f, of "debug counting_env" dpi aa]
    by (auto simp: savefig_def psconvert_def psconvert_body_def preprocess_def figure_eq
          call_module_eq counting_env_def)
  have st: "snd (preview counting_env ''png'' dpi aa True s) = s1"
    using sv by (simp add: preview_state)
  from ok sv assms(3) st show ?thesis
    by (auto simp: preview_def Let_def read_bytes_def)
qed

text \<open>
  Claim C8 for two PNG previews in a row with a library that writes a different file at
  every conversion: after the first preview the only file is the one at the path, with
  the first content; after the second preview it is still the only file and holds the
  second content, which is what the second preview returns.
\<close>

theorem preview_path_deterministic_witness:
  "(''png'' = ''png'' \<or> ''png'' = ''pdf'')
   \<and> CHR ''/'' \<notin> set (name (self demo_state))
   \<and> list_ex (\<lambda>c. c \<noteq> CHR ''.'') (name (self demo_state))
   \<and> path_join (preview_dir (self demo_state)) (name (self demo_state) @ ''.'' @ ''png'') =
       ''/tmp/gmt-python-x-preview-y/gmt-python-x.png''
   \<and> fs (snd (preview counting_env ''png'' 300 True True demo_state)) =
       [''/tmp/gmt-python-x-preview-y/gmt-python-x.png'' \<mapsto> File ''#'']
   \<and> fst (preview counting_env ''png'' 300 True True demo_state) = Inr (PreviewBytes ''#'')
   \<and> fs (snd (preview counting_env ''png'' 70 True True
              (snd (preview counting_env ''png'' 300 True True demo_state)))) =
       [''/tmp/gmt-python-x-preview-y/gmt-python-x.png'' \<mapsto> File ''###'']
   \<and> fst (preview counting_env ''png'' 70 True True
              (snd (preview counting_env ''png'' 300 True True demo_state))) =
       Inr (PreviewBytes ''###'')"
proof -
  let ?p = "''/tmp/gmt-python-x-preview-y/gmt-python-x.png''"
  let ?s1 = "snd (preview counting_env ''png'' 300 True True demo_state)"
  have h: "''png'' = ''png'' \<or> ''png'' = ''pdf''" by simp
  have p: "path_join (preview_dir (self demo_state)) (name (self demo_state) @ ''.'' @ ''png'') = ?p"
    by (simp add: path_join_def demo_state_def)
  have j: "path_join (preview_dir (self demo_state)) (name (self demo_state)) =
             ''/tmp/gmt-python-x-preview-y/gmt-python-x''"
    by (simp add: path_join_def demo_state_def)
  note t = preview_path_deterministic [OF h demo_name, where e = counting_env and dpi = 300
      and aa = True and ab = True and dpi' = 70 and aa' = True and ab' = True]
  from t counting_select_ok [of demo_state]
  have "fs ?s1 =
          native_fs counting_env ''psconvert''
            (build_arg_string counting_env (psconvert_defaults (decorated counting_env
               ((savefig_args 300 True)
                  (''prefix'' \<mapsto> PStr (path_join (preview_dir (self demo_state))
                                           (name (self demo_state))),
                   ''fmt'' \<mapsto> PStr (if ''png'' = ''png'' then ''g'' else ''f''),
                   ''crop'' \<mapsto> PBool True, ''portrait'' \<mapsto> PBool True)))))
            (snd (figure counting_env (name (self demo_state)) demo_state))"
    by blast
  then have f1: "fs ?s1 = [?p \<mapsto> File ''#'']"
    by (simp add: j counting_args counting_native_fs) (simp add: demo_state_def)
  have g1: "gmt ?s1 = 2"
    using preview_native_state [OF demo_name, of "''png''" "''g''" counting_env 300 True True]
    by (simp add: fmts_def counting_select_ok figure_eq call_module_eq)
       (simp add: counting_env_def demo_state_def)
  from t counting_select_ok [of ?s1]
  have "fs (snd (preview counting_env ''png'' 70 True True ?s1)) =
          native_fs counting_env ''psconvert''
            (build_arg_string counting_env (psconvert_defaults (decorated counting_env
               ((savefig_args 70 True)
                  (''prefix'' \<mapsto> PStr (path_join (preview_dir (self demo_state))
                                           (name (self demo_state))),
                   ''fmt'' \<mapsto> PStr (if ''png'' = ''png'' then ''g'' else ''f''),
                   ''crop'' \<mapsto> PBool True, ''portrait'' \<mapsto> PBool True)))))
            (snd (figure counting_env (name (self demo_state)) ?s1))"
    by blast
  then have f2: "fs (snd (preview counting_env ''png'' 70 True True ?s1)) = [?p \<mapsto> File ''###'']"
    by (simp add: j counting_args counting_native_fs f1 g1 numeral_3_eq_3)
  have pf: "preview_fname (self demo_state) ''png'' = ?p"
    using p by (simp add: preview_fname_def)
  have pf1: "preview_fname (self ?s1) ''png'' = ?p"
    by (simp add: preview_self pf)
  have n1: "CHR ''/'' \<notin> set (name (self ?s1))" "list_ex (\<lambda>c. c \<noteq> CHR ''.'') (name (self ?s1))"
    using demo_name by (simp_all add: preview_self)
  have b1: "fst (preview counting_env ''png'' 300 True True demo_state) = Inr (PreviewBytes ''#'')"
    by (rule counting_preview_bytes [OF demo_name]) (simp add: f1 pf)
  have b2: "fst (preview counting_env ''png'' 70 True True ?s1) = Inr (PreviewBytes ''###'')"
    by (rule counting_preview_bytes [OF n1]) (simp add: f2 pf1)
  from h demo_name p f1 b1 f2 b2 show ?thesis by blast
qed

text \<open>
  Claim C10 at \<^verbatim>\<open>show(dpi=72)\<close>, external and embedded.
\<close>

theorem show_external_ignores_dpi_witness:
  "CHR ''/'' \<notin> set (name (self demo_state))
   \<and> list_ex (\<lambda>c. c \<noteq> CHR ''.'') (name (self demo_state))
   \<and> show_fig demo_env 72 500 True demo_state = show_fig demo_env 300 640 True demo_state
   \<and> calls (snd (show_fig demo_env 72 500 True demo_state)) =
       [(''figure'', ''gmt-python-x -''),
        (''psconvert'', build_arg_string demo_env (psconvert_defaults (decorated demo_env
           [''dpi'' \<mapsto> PInt 600,
            ''prefix'' \<mapsto> PStr ''/tmp/gmt-python-x-preview-y/gmt-python-x'',
            ''fmt'' \<mapsto> PStr ''f'', ''crop'' \<mapsto> PBool True, ''portrait'' \<mapsto> PBool True])))]
   \<and> calls (snd (show_fig demo_env 72 500 False demo_state)) =
       [(''figure'', ''gmt-python-x -''),
        (''psconvert'', build_arg_string demo_env (psconvert_defaults (decorated demo_env
           [''dpi'' \<mapsto> PInt 72, ''Qg'' \<mapsto> PInt 4, ''Qt'' \<mapsto> PInt 4,
            ''prefix'' \<mapsto> PStr ''/tmp/gmt-python-x-preview-y/gmt-python-x'',
            ''fmt'' \<mapsto> PStr ''g'', ''crop'' \<mapsto> PBool True, ''portrait'' \<mapsto> PBool True])))]
   \<and> fst (show_fig demo_env 72 500 False demo_state) =
       Inr (ImageValue \<lparr>data = ''image'', width = 500\<rparr>)"
proof -
  note t = show_external_ignores_dpi [OF demo_name,
      where e = demo_env and dpi = 72 and wd = 500 and dpi' = 300 and wd' = 640]
  from t have a: "show_fig demo_env 72 500 True demo_state = show_fig demo_env 300 640 True demo_state"
    by blast
  from t have "calls (snd (show_fig demo_env 72 500 True demo_state)) =
           calls demo_state @ (''figure'', name (self demo_state) @ '' -'') #
             (if select_ok demo_env demo_state
              then [(''psconvert'', build_arg_string demo_env (psconvert_defaults (decorated demo_env
                      [''dpi'' \<mapsto> PInt 600,
                       ''prefix'' \<mapsto> PStr (path_join (preview_dir (self demo_state)) (name (self demo_state))),
                       ''fmt'' \<mapsto> PStr ''f'', ''crop'' \<mapsto> PBool True,
                       ''portrait'' \<mapsto> PBool True])))]
              else [])"
    by blast
  then have b: "calls (snd (show_fig demo_env 72 500 True demo_state)) =
       [(''figure'', ''gmt-python-x -''),
        (''psconvert'', build_arg_string demo_env (psconvert_defaults (decorated demo_env
           [''dpi'' \<mapsto> PInt 600,
            ''prefix'' \<mapsto> PStr ''/tmp/gmt-python-x-preview-y/gmt-python-x'',
            ''fmt'' \<mapsto> PStr ''f'', ''crop'' \<mapsto> PBool True, ''portrait'' \<mapsto> PBool True])))]"
    using demo_select_ok by (simp add: demo_state_def path_join_def)
  from t have "calls (snd (show_fig demo_env 72 500 False demo_state)) =
           calls demo_state @ (''figure'', name (self demo_state) @ '' -'') #
             (if select_ok demo_env demo_state
              then [(''psconvert'', build_arg_string demo_env (psconvert_defaults (decorated demo_env
                      [''dpi'' \<mapsto> PInt 72, ''Qg'' \<mapsto> PInt 4, ''Qt'' \<mapsto> PInt 4,
                       ''prefix'' \<mapsto> PStr (path_join (preview_dir (self demo_state)) (name (self demo_state))),
                       ''fmt'' \<mapsto> PStr ''g'', ''crop'' \<mapsto> PBool True,
                       ''portrait'' \<mapsto> PBool True])))]
              else [])"
    by blast
  then have c: "calls (snd (show_fig demo_env 72 500 False demo_state)) =
       [(''figure'', ''gmt-python-x -''),
        (''psconvert'', build_arg_string demo_env (psconvert_defaults (decorated demo_env
           [''dpi'' \<mapsto> PInt 72, ''Qg'' \<mapsto> PInt 4, ''Qt'' \<mapsto> PInt 4,
            ''prefix'' \<mapsto> PStr ''/tmp/gmt-python-x-preview-y/gmt-python-x'',
            ''fmt'' \<mapsto> PStr ''g'', ''crop'' \<mapsto> PBool True, ''portrait'' \<mapsto> PBool True])))]"
    using demo_select_ok by (simp add: demo_state_def path_join_def)
  have i: "ipython demo_env" by (simp add: demo_env_def)
  have d: "fst (show_fig demo_env 72 500 False demo_state) =
       Inr (ImageValue \<lparr>data = ''image'', width = 500\<rparr>)"
    by (simp add: show_fig_def demo_preview_png i preview_value_def)
  from demo_name a b c d show ?thesis by blast
qed

end
